theory Spec2Isabelle
  imports Main
begin

section \<open>Strings\<close>

text \<open>
  A JavaScript string is a sequence of UTF-16 code units.  The model uses \<^typ>\<open>string\<close>,
  one \<^typ>\<open>char\<close> per code unit, which covers the code units \<open>0x00 .. 0xFF\<close>.  All
  literals that the claims depend on (error messages, the \<open>Error:\<close> prefix, the fence, the
  punctuation class, the word list) are ASCII.
\<close>

definition dq :: char where
  "dq = CHR 0x22"

definition nl :: char where
  "nl = CHR 0x0A"

text \<open>
  The white space of \<open>String.prototype.trim\<close> and of the regular expression class \<open>\s\<close>,
  restricted to the modelled code units: TAB, LF, VT, FF, CR, SPACE and NBSP.
\<close>

definition isWhiteSpace :: "char \<Rightarrow> bool" where
  "isWhiteSpace c \<longleftrightarrow>
     c = CHR 0x09 \<or> c = CHR 0x0A \<or> c = CHR 0x0B \<or> c = CHR 0x0C \<or> c = CHR 0x0D \<or>
     c = CHR 0x20 \<or> c = CHR 0xA0"

definition trimStart :: "string \<Rightarrow> string" where
  "trimStart s = dropWhile isWhiteSpace s"

definition trimEnd :: "string \<Rightarrow> string" where
  "trimEnd s = rev (dropWhile isWhiteSpace (rev s))"

definition trim :: "string \<Rightarrow> string" where
  "trim s = trimEnd (trimStart s)"

definition startsWith :: "string \<Rightarrow> string \<Rightarrow> bool" where
  "startsWith s p \<longleftrightarrow> take (length p) s = p"

definition endsWith :: "string \<Rightarrow> string \<Rightarrow> bool" where
  "endsWith s p \<longleftrightarrow> length p \<le> length s \<and> drop (length s - length p) s = p"

text \<open>Decimal rendering of a number inside a template literal.\<close>

definition digitChar :: "nat \<Rightarrow> char" where
  "digitChar d = char_of (48 + d)"

function showNat :: "nat \<Rightarrow> string" where
  "showNat n = (if n < 10 then [digitChar n] else showNat (n div 10) @ [digitChar (n mod 10)])"
  by pat_completeness auto
termination
  by (relation "measure id") auto

section \<open>JSON values\<close>

text \<open>
  The value \<open>JSON.parse\<close> returns.  A number keeps its lexeme; an object is the list of
  its own properties in insertion order, each key once.
\<close>

datatype json =
    JNull
  | JBool bool
  | JNumber string
  | JString string
  | JArray "json list"
  | JObject "(string \<times> json) list"

text \<open>
  \<open>JSON.parse\<close> belongs to the JavaScript runtime, not to the repository, so the gateway
  operations take it as a parameter: \<open>Inl m\<close> is a thrown \<open>SyntaxError\<close> with message
  \<open>m\<close>, \<open>Inr v\<close> the parsed value.
\<close>

type_synonym jsonParser = "string \<Rightarrow> string + json"

text \<open>
  Property access \<open>v.k\<close> for the keys the gateway reads (\<open>art\<close>, \<open>text\<close>, \<open>results\<close>,
  \<open>script\<close>): \<open>None\<close> is \<open>undefined\<close>.  None of these keys exists on a string, number,
  boolean or array; on \<open>null\<close> the access throws, which each caller models itself.
\<close>

definition getProp :: "json \<Rightarrow> string \<Rightarrow> json option" where
  "getProp v k = (case v of JObject fs \<Rightarrow> map_of fs k | _ \<Rightarrow> None)"

text \<open>
  A number of a JSON text becomes the nearest double, ties to even.  The lexeme has the
  shape \<open>-?int(.frac)?([eE][+-]?exp)?\<close> and denotes \<open>D * 10 ^ k\<close>, with \<open>D\<close> the digits
  of \<open>int\<close> and \<open>frac\<close> read as one number and \<open>k\<close> the exponent less the number of
  digits of \<open>frac\<close>.  The double is zero exactly when the number is at most \<open>2 ^ -1075\<close>,
  half the least positive double: when \<open>D\<close> is zero, or \<open>k\<close> is negative and
  \<open>D * 2 ^ 1075 \<le> 10 ^ (-k)\<close>.
\<close>

definition digitsValue :: "string \<Rightarrow> int" where
  "digitsValue ds = foldl (\<lambda>n c. 10 * n + (of_char c - 48)) 0 ds"

definition lexemeDigits :: "string \<Rightarrow> int" where
  "lexemeDigits l =
     digitsValue (filter (\<lambda>c. c \<noteq> CHR ''-'' \<and> c \<noteq> CHR ''.'')
                    (takeWhile (\<lambda>c. c \<noteq> CHR ''e'' \<and> c \<noteq> CHR ''E'') l))"

definition lexemeFractionLength :: "string \<Rightarrow> nat" where
  "lexemeFractionLength l =
     length (drop 1 (dropWhile (\<lambda>c. c \<noteq> CHR ''.'')
                       (takeWhile (\<lambda>c. c \<noteq> CHR ''e'' \<and> c \<noteq> CHR ''E'') l)))"

definition lexemeExponent :: "string \<Rightarrow> int" where
  "lexemeExponent l =
     (case drop 1 (dropWhile (\<lambda>c. c \<noteq> CHR ''e'' \<and> c \<noteq> CHR ''E'') l) of
        [] \<Rightarrow> 0
      | c # cs \<Rightarrow>
          if c = CHR ''-'' then - digitsValue cs
          else if c = CHR ''+'' then digitsValue cs
          else digitsValue (c # cs))"

definition zeroLexeme :: "string \<Rightarrow> bool" where
  "zeroLexeme l \<longleftrightarrow>
     (let D = lexemeDigits l; k = lexemeExponent l - int (lexemeFractionLength l)
      in D = 0 \<or> (k < 0 \<and> D * 2 ^ 1075 \<le> 10 ^ nat (- k)))"

text \<open>JavaScript truthiness of a parsed JSON value.\<close>

definition truthy :: "json \<Rightarrow> bool" where
  "truthy v = (case v of
      JNull \<Rightarrow> False
    | JBool b \<Rightarrow> b
    | JNumber l \<Rightarrow> \<not> zeroLexeme l
    | JString s \<Rightarrow> s \<noteq> []
    | JArray _ \<Rightarrow> True
    | JObject _ \<Rightarrow> True)"

definition truthyProp :: "json option \<Rightarrow> bool" where
  "truthyProp p = (case p of None \<Rightarrow> False | Some v \<Rightarrow> truthy v)"

text \<open>
  Assigning a property: it replaces a property of that name where it stands, or is appended
  after the others.  \<open>JSON.parse\<close> builds an object this way, and so does the spread
  \<open>{...parsed, language: language, word: word}\<close>.
\<close>

fun setProp :: "string \<Rightarrow> json \<Rightarrow> (string \<times> json) list \<Rightarrow> (string \<times> json) list" where
  "setProp k v [] = [(k, v)]"
| "setProp k v (p # ps) = (if fst p = k then (k, v) # ps else p # setProp k v ps)"

subsection \<open>A reference parser\<close>

text \<open>
  An executable reading of the JSON grammar (RFC 8259), used where a theorem evaluates a
  gateway operation on a concrete response text.  The recursion is bounded by a fuel of
  twice the length of the text plus two: every call of \<open>jsonValue\<close> consumes at least
  one code unit and every call of \<open>jsonElements\<close> or \<open>jsonMembers\<close> is followed by
  one of \<open>jsonValue\<close>.  It agrees with \<open>JSON.parse\<close> on the texts whose strings stay
  within the modelled code units: an escape \<open>\u....\<close> above \<open>0xFF\<close> denotes a code
  unit that \<^typ>\<open>string\<close> does not have, and the parser refuses the text where
  \<open>JSON.parse\<close> returns.  The message of the \<open>SyntaxError\<close> differs between engines;
  the two used here stand for it.
\<close>

definition isJsonSpace :: "char \<Rightarrow> bool" where
  "isJsonSpace c \<longleftrightarrow> c = CHR 0x20 \<or> c = CHR 0x09 \<or> c = CHR 0x0A \<or> c = CHR 0x0D"

definition skipSpace :: "string \<Rightarrow> string" where
  "skipSpace s = dropWhile isJsonSpace s"

definition isDigit :: "char \<Rightarrow> bool" where
  "isDigit c \<longleftrightarrow> 48 \<le> (of_char c :: nat) \<and> (of_char c :: nat) \<le> 57"

definition hexValue :: "char \<Rightarrow> nat option" where
  "hexValue c =
     (let n = (of_char c :: nat) in
      if 48 \<le> n \<and> n \<le> 57 then Some (n - 48)
      else if 97 \<le> n \<and> n \<le> 102 then Some (n - 87)
      else if 65 \<le> n \<and> n \<le> 70 then Some (n - 55)
      else None)"

definition hex4 :: "string \<Rightarrow> nat option" where
  "hex4 s = (case map hexValue s of
      [Some a, Some b, Some c, Some d] \<Rightarrow> Some (((a * 16 + b) * 16 + c) * 16 + d)
    | _ \<Rightarrow> None)"

definition escapeChar :: "char \<Rightarrow> char option" where
  "escapeChar e =
     (if e = CHR 0x22 then Some (CHR 0x22)
      else if e = CHR 0x5C then Some (CHR 0x5C)
      else if e = CHR ''/'' then Some (CHR ''/'')
      else if e = CHR ''b'' then Some (CHR 0x08)
      else if e = CHR ''f'' then Some (CHR 0x0C)
      else if e = CHR ''n'' then Some (CHR 0x0A)
      else if e = CHR ''r'' then Some (CHR 0x0D)
      else if e = CHR ''t'' then Some (CHR 0x09)
      else None)"

fun stringBody :: "string \<Rightarrow> string \<Rightarrow> (string \<times> string) option" where
  "stringBody acc [] = None"
| "stringBody acc (c # cs) =
     (if c = CHR 0x22 then Some (rev acc, cs)
      else if c = CHR 0x5C then
        (case cs of
           [] \<Rightarrow> None
         | e # es \<Rightarrow>
             if e = CHR ''u'' then
               (case hex4 (take 4 es) of
                  Some n \<Rightarrow> if n < 256 then stringBody (char_of n # acc) (drop 4 es) else None
                | None \<Rightarrow> None)
             else
               (case escapeChar e of
                  Some x \<Rightarrow> stringBody (x # acc) es
                | None \<Rightarrow> None))
      else if (of_char c :: nat) < 32 then None
      else stringBody (c # acc) cs)"

definition digits1 :: "string \<Rightarrow> (string \<times> string) option" where
  "digits1 s = (let d = takeWhile isDigit s in if d = [] then None else Some (d, dropWhile isDigit s))"

definition intPart :: "string \<Rightarrow> (string \<times> string) option" where
  "intPart s = (case s of
      [] \<Rightarrow> None
    | c # cs \<Rightarrow> if c = CHR ''0'' then Some ([c], cs) else digits1 s)"

definition fracPart :: "string \<Rightarrow> (string \<times> string) option" where
  "fracPart s = (case s of
      [] \<Rightarrow> Some ([], [])
    | c # cs \<Rightarrow>
        if c = CHR ''.'' then (case digits1 cs of Some (d, r) \<Rightarrow> Some (c # d, r) | None \<Rightarrow> None)
        else Some ([], s))"

definition expPart :: "string \<Rightarrow> (string \<times> string) option" where
  "expPart s = (case s of
      [] \<Rightarrow> Some ([], [])
    | c # cs \<Rightarrow>
        if c = CHR ''e'' \<or> c = CHR ''E'' then
          (let sgn = (case cs of [] \<Rightarrow> [] | x # _ \<Rightarrow> if x = CHR ''+'' \<or> x = CHR ''-'' then [x] else [])
           in case digits1 (drop (length sgn) cs) of
                Some (d, r) \<Rightarrow> Some (c # sgn @ d, r)
              | None \<Rightarrow> None)
        else Some ([], s))"

definition numberLexeme :: "string \<Rightarrow> (string \<times> string) option" where
  "numberLexeme s =
     (let sgn = (case s of [] \<Rightarrow> [] | c # _ \<Rightarrow> if c = CHR ''-'' then [c] else [])
      in case intPart (drop (length sgn) s) of
           None \<Rightarrow> None
         | Some (i, r1) \<Rightarrow>
             (case fracPart r1 of
                None \<Rightarrow> None
              | Some (f, r2) \<Rightarrow>
                  (case expPart r2 of
                     None \<Rightarrow> None
                   | Some (e, r3) \<Rightarrow> Some (sgn @ i @ f @ e, r3))))"

fun jsonValue :: "nat \<Rightarrow> string \<Rightarrow> (json \<times> string) option"
  and jsonElements :: "nat \<Rightarrow> json list \<Rightarrow> string \<Rightarrow> (json \<times> string) option"
  and jsonMembers :: "nat \<Rightarrow> (string \<times> json) list \<Rightarrow> string \<Rightarrow> (json \<times> string) option" where
  "jsonValue 0 s = None"
| "jsonValue (Suc n) s =
     (case skipSpace s of
        [] \<Rightarrow> None
      | c # cs \<Rightarrow>
          if c = CHR ''{'' then
            (case skipSpace cs of
               [] \<Rightarrow> None
             | d # ds \<Rightarrow> if d = CHR ''}'' then Some (JObject [], ds) else jsonMembers n [] cs)
          else if c = CHR ''['' then
            (case skipSpace cs of
               [] \<Rightarrow> None
             | d # ds \<Rightarrow> if d = CHR '']'' then Some (JArray [], ds) else jsonElements n [] cs)
          else if c = CHR 0x22 then
            (case stringBody [] cs of Some (t, r) \<Rightarrow> Some (JString t, r) | None \<Rightarrow> None)
          else if startsWith (c # cs) ''true'' then Some (JBool True, drop 4 (c # cs))
          else if startsWith (c # cs) ''false'' then Some (JBool False, drop 5 (c # cs))
          else if startsWith (c # cs) ''null'' then Some (JNull, drop 4 (c # cs))
          else (case numberLexeme (c # cs) of Some (l, r) \<Rightarrow> Some (JNumber l, r) | None \<Rightarrow> None))"
| "jsonElements 0 acc s = None"
| "jsonElements (Suc n) acc s =
     (case jsonValue n s of
        None \<Rightarrow> None
      | Some (v, r) \<Rightarrow>
          (case skipSpace r of
             [] \<Rightarrow> None
           | c # cs \<Rightarrow>
               if c = CHR '','' then jsonElements n (acc @ [v]) cs
               else if c = CHR '']'' then Some (JArray (acc @ [v]), cs)
               else None))"
| "jsonMembers 0 acc s = None"
| "jsonMembers (Suc n) acc s =
     (case skipSpace s of
        [] \<Rightarrow> None
      | q # qs \<Rightarrow>
          if q \<noteq> CHR 0x22 then None
          else
            (case stringBody [] qs of
               None \<Rightarrow> None
             | Some (k, r) \<Rightarrow>
                 (case skipSpace r of
                    [] \<Rightarrow> None
                  | c # cs \<Rightarrow>
                      if c \<noteq> CHR '':'' then None
                      else
                        (case jsonValue n cs of
                           None \<Rightarrow> None
                         | Some (v, r') \<Rightarrow>
                             (case skipSpace r' of
                                [] \<Rightarrow> None
                              | d # ds \<Rightarrow>
                                  if d = CHR '','' then jsonMembers n (setProp k v acc) ds
                                  else if d = CHR ''}'' then Some (JObject (setProp k v acc), ds)
                                  else None)))))"

definition JSON_parse :: jsonParser where
  "JSON_parse s =
     (case jsonValue (2 * length s + 2) s of
        Some (v, r) \<Rightarrow> if skipSpace r = [] then Inr v else Inl ''Unexpected non-whitespace character after JSON''
      | None \<Rightarrow> Inl ''Unexpected token or end of JSON input'')"

section \<open>Unwrapping a fenced response\<close>

text \<open>
  \<^verbatim>\<open>const fenceRegex = /^```(?:json)?\s*\n?(.*?)\n?\s*```$/s;\<close>

  \<open>fenceMatch s\<close> is capture group 1 of \<open>s.match(fenceRegex)\<close>, \<open>None\<close> when the
  expression does not match.  The expression is anchored at both ends (no \<open>m\<close> flag) and
  \<open>.\<close> matches every code unit (\<open>s\<close> flag), so:
  \<^item> the text starts with three backticks, then \<open>json\<close> if it is there (greedy \<open>?\<close>);
  \<^item> the greedy \<open>\s*\<close> takes all white space that follows (\<open>\n?\<close> then matches nothing);
  \<^item> the closing three backticks are the last three code units of the text;
  \<^item> the lazy group is the shortest text after which only white space precedes the closing
    backticks, that is, what lies between with its trailing white space removed.

  Backtracking into the greedy parts never turns a failed match into a success (it only
  prepends \<open>json\<close> or white space to the rest and leaves the end of the text as it is), so
  the first match found is the one described.
\<close>

definition fence :: string where
  "fence = [CHR 0x60, CHR 0x60, CHR 0x60]"

definition fenceMatch :: "string \<Rightarrow> string option" where
  "fenceMatch s =
     (if startsWith s fence then
        (let t = drop 3 s;
             u = (if startsWith t ''json'' then drop 4 t else t);
             r = dropWhile isWhiteSpace u
         in if endsWith r fence then Some (trimEnd (take (length r - 3) r)) else None)
      else None)"

text \<open>
  \<^verbatim>\<open>const match = jsonStr.match(fenceRegex);
  if (match && match[1]) { jsonStr = match[1].trim(); }\<close>
\<close>

definition stripFence :: "string \<Rightarrow> string" where
  "stripFence jsonStr =
     (case fenceMatch jsonStr of
        Some g \<Rightarrow> if g \<noteq> [] then trim g else jsonStr
      | None \<Rightarrow> jsonStr)"

section \<open>The API gateway\<close>

text \<open>
  \<open>process.env.API_KEY\<close> is \<open>undefined\<close> or a string; \<open>!process.env.API_KEY\<close> holds for
  \<open>undefined\<close> and for the empty string.
\<close>

definition noKey :: "string option \<Rightarrow> bool" where
  "noKey k \<longleftrightarrow> k = None \<or> k = Some []"

text \<open>
  A value thrown by the SDK or the runtime is an \<open>Error\<close> object with a message, or
  something else.
\<close>

datatype thrown = JsError string | NonError

text \<open>\<^verbatim>\<open>error instanceof Error ? error.message : 'An unknown error occurred.'\<close>\<close>

definition messageOf :: "thrown \<Rightarrow> string" where
  "messageOf e = (case e of JsError m \<Rightarrow> m | NonError \<Rightarrow> ''An unknown error occurred.'')"

text \<open>
  What one call of \<open>ai.models.generateContent\<close> gives: a response whose \<open>text\<close> is a
  string, a response with \<open>text\<close> undefined, or a thrown value.
\<close>

datatype reply = Text string | NoText | Throws thrown

text \<open>
  A request sent to the remote model.  The prompt, model name and configuration are fixed
  by the operation and its arguments, so the request is recorded by those.
\<close>

datatype position = Initial | Medial | Final | AnyPosition

datatype request =
    StreamDefinitionReq string
  | RandomWordReq
  | AsciiArtReq string
  | ConceptsReq string
  | SearchReq position string bool
  | ScriptReq string string

text \<open>A promise settles with a value or rejects with an \<open>Error\<close> carrying a message.\<close>

datatype 'a outcome = Returned 'a | Raised string

text \<open>The \<open>TypeError\<close> messages of reading a property of \<open>undefined\<close> or \<open>null\<close> (V8 wording).\<close>

definition undefinedReadMessage :: "string \<Rightarrow> string" where
  "undefinedReadMessage p = ''Cannot read properties of undefined (reading '' @ [CHR 0x27] @ p @ [CHR 0x27] @ '')''"

definition nullReadMessage :: "string \<Rightarrow> string" where
  "nullReadMessage p = ''Cannot read properties of null (reading '' @ [CHR 0x27] @ p @ [CHR 0x27] @ '')''"

text \<open>\<open>response.text.trim()\<close>, common to the five request/response operations.\<close>

definition responseText :: "reply \<Rightarrow> thrown + string" where
  "responseText r = (case r of
      Throws e \<Rightarrow> Inl e
    | NoText \<Rightarrow> Inl (JsError (undefinedReadMessage ''trim''))
    | Text t \<Rightarrow> Inr (trim t))"

subsection \<open>generateAsciiArt\<close>

record AsciiArtData =
  art :: string
  artText :: "json option"

definition ENABLE_ASCII_TEXT_GENERATION :: bool where
  "ENABLE_ASCII_TEXT_GENERATION = False"

text \<open>The body of the \<open>try\<close> block of one attempt (lines 167 to 215), given the reply.\<close>

definition artAttempt :: "jsonParser \<Rightarrow> reply \<Rightarrow> thrown + AsciiArtData" where
  "artAttempt parse r =
     (case responseText r of
        Inl e \<Rightarrow> Inl e
      | Inr t \<Rightarrow>
          (let jsonStr = stripFence t in
           if \<not> (startsWith jsonStr ''{'' \<and> endsWith jsonStr ''}'') then
             Inl (JsError ''Response is not a valid JSON object'')
           else
             (case parse jsonStr of
                Inl m \<Rightarrow> Inl (JsError m)
              | Inr parsedData \<Rightarrow>
                  if parsedData = JNull then Inl (JsError (nullReadMessage ''art''))
                  else
                    (case getProp parsedData ''art'' of
                       Some (JString a) \<Rightarrow>
                         if length (trim a) = 0 then
                           Inl (JsError ''Invalid or empty ASCII art in response'')
                         else
                           Inr \<lparr> art = a,
                                 artText = (if ENABLE_ASCII_TEXT_GENERATION
                                            \<and> truthyProp (getProp parsedData ''text'')
                                         then getProp parsedData ''text'' else None) \<rparr>
                     | _ \<Rightarrow> Inl (JsError ''Invalid or empty ASCII art in response'')))))"

text \<open>
  The loop \<^verbatim>\<open>for (let attempt = 1; attempt <= maxRetries; attempt++)\<close> with its
  \<open>catch\<close> block and the \<open>throw\<close> after it.  \<open>remote n\<close> is the reply to the \<open>n\<close>-th
  attempt; \<open>sent\<close> collects the requests made; \<open>lastError\<close> is the message of the
  \<open>Error\<close> held by the variable of that name.
\<close>

function artLoop ::
  "jsonParser \<Rightarrow> (nat \<Rightarrow> reply) \<Rightarrow> string \<Rightarrow> nat \<Rightarrow> nat \<Rightarrow> string option \<Rightarrow> request list
     \<Rightarrow> request list \<times> AsciiArtData outcome" where
  "artLoop parse remote topic maxRetries attempt lastError sent =
     (if attempt \<le> maxRetries then
        (case artAttempt parse (remote attempt) of
           Inr result \<Rightarrow> (sent @ [AsciiArtReq topic], Returned result)
         | Inl error \<Rightarrow>
             (let m = (case error of JsError m \<Rightarrow> m | NonError \<Rightarrow> ''Unknown error occurred'') in
              if attempt = maxRetries then
                (sent @ [AsciiArtReq topic],
                 Raised (''Could not generate ASCII art after '' @ showNat maxRetries
                           @ '' attempts: '' @ m))
              else
                artLoop parse remote topic maxRetries (attempt + 1) (Some m)
                  (sent @ [AsciiArtReq topic])))
      else
        (sent, Raised (case lastError of Some m \<Rightarrow> m | None \<Rightarrow> ''All retry attempts failed'')))"
  by pat_completeness auto
termination
  by (relation "measure (\<lambda>(parse, remote, topic, maxRetries, attempt, lastError, sent).
                            Suc maxRetries - attempt)") auto

text \<open>\<^verbatim>\<open>const maxRetries = 1;\<close>\<close>

definition maxRetries :: nat where
  "maxRetries = 1"

definition generateAsciiArt ::
  "jsonParser \<Rightarrow> string option \<Rightarrow> string \<Rightarrow> (nat \<Rightarrow> reply) \<Rightarrow> request list \<times> AsciiArtData outcome" where
  "generateAsciiArt parse key topic remote =
     (if noKey key then ([], Raised ''API_KEY is not configured.'')
      else artLoop parse remote topic maxRetries 1 None [])"

subsection \<open>streamDefinition\<close>

text \<open>
  What \<open>ai.models.generateContentStream\<close> gives when it is consumed to its end: the
  \<open>text\<close> of each chunk in order (\<open>None\<close> for an undefined \<open>text\<close>), and the value
  thrown, if the call or the iteration throws.
\<close>

datatype streamReply = StreamReply "string option list" "thrown option"

text \<open>\<open>if (chunk.text) yield chunk.text\<close>: an undefined or empty text is skipped.\<close>

definition chunkTexts :: "string option list \<Rightarrow> string list" where
  "chunkTexts cs = concat (map (\<lambda>c. case c of Some t \<Rightarrow> (if t \<noteq> [] then [t] else []) | None \<Rightarrow> []) cs)"

text \<open>How a run of the generator ends: it completes (\<open>return\<close>), or it throws.\<close>

datatype ending = Completed | Threw string

record generatorRun =
  requests :: "request list"
  yielded :: "string list"
  ending :: ending

definition configurationFragment :: string where
  "configurationFragment =
     ''Error: API_KEY is not configured. Please check your environment variables to continue.''"

definition failureFragment :: "string \<Rightarrow> string \<Rightarrow> string" where
  "failureFragment topic errorMessage =
     ''Error: Could not generate content for '' @ [dq] @ topic @ [dq] @ ''. '' @ errorMessage"

text \<open>The generator, driven until it is done.\<close>

definition streamDefinition :: "string option \<Rightarrow> string \<Rightarrow> streamReply \<Rightarrow> generatorRun" where
  "streamDefinition key topic remote =
     (if noKey key then
        \<lparr> requests = [], yielded = [configurationFragment], ending = Completed \<rparr>
      else
        (case remote of
           StreamReply chunks None \<Rightarrow>
             \<lparr> requests = [StreamDefinitionReq topic], yielded = chunkTexts chunks,
               ending = Completed \<rparr>
         | StreamReply chunks (Some error) \<Rightarrow>
             \<lparr> requests = [StreamDefinitionReq topic],
               yielded = chunkTexts chunks @ [failureFragment topic (messageOf error)],
               ending = Threw (messageOf error) \<rparr>))"

subsection \<open>getRandomWord\<close>

definition getRandomWord :: "string option \<Rightarrow> reply \<Rightarrow> request list \<times> string outcome" where
  "getRandomWord key remote =
     (if noKey key then ([], Raised ''API_KEY is not configured.'')
      else
        ([RandomWordReq],
         (case responseText remote of
            Inr t \<Rightarrow> Returned t
          | Inl error \<Rightarrow> Raised (''Could not get random word: '' @ messageOf error))))"

subsection \<open>getCrossCulturalConcepts\<close>

text \<open>The \<open>try\<close> block, lines 271 to 284.\<close>

definition conceptsBody :: "jsonParser \<Rightarrow> reply \<Rightarrow> thrown + json list" where
  "conceptsBody parse r =
     (case responseText r of
        Inl e \<Rightarrow> Inl e
      | Inr t \<Rightarrow>
          (case parse (stripFence t) of
             Inl m \<Rightarrow> Inl (JsError m)
           | Inr (JArray concepts) \<Rightarrow> Inr concepts
           | Inr _ \<Rightarrow> Inl (JsError ''Response is not a valid array of concepts.'')))"

definition getCrossCulturalConcepts ::
  "jsonParser \<Rightarrow> string option \<Rightarrow> string \<Rightarrow> reply \<Rightarrow> request list \<times> json list outcome" where
  "getCrossCulturalConcepts parse key topic remote =
     (if noKey key then ([], Raised ''API_KEY is not configured.'')
      else
        ([ConceptsReq topic],
         (case conceptsBody parse remote of
            Inr concepts \<Rightarrow> Returned concepts
          | Inl error \<Rightarrow> Raised (''Could not fetch cultural concepts: '' @ messageOf error))))"

subsection \<open>performPhonosemanticSearch\<close>

record filters =
  position :: position
  languages :: string
  fuzzy :: bool

text \<open>
  The \<open>try\<close> block, lines 360 to 372.  \<open>!data\<close> holds for \<open>null\<close>, \<open>false\<close>, a zero
  number and the empty string; \<open>Array.isArray(data.results)\<close> fails when the property is
  absent or is anything but an array.
\<close>

definition searchBody :: "jsonParser \<Rightarrow> reply \<Rightarrow> thrown + json list" where
  "searchBody parse r =
     (case responseText r of
        Inl e \<Rightarrow> Inl e
      | Inr t \<Rightarrow>
          (case parse (stripFence t) of
             Inl m \<Rightarrow> Inl (JsError m)
           | Inr data \<Rightarrow>
               if \<not> truthy data then Inl (JsError ''Invalid response format from API.'')
               else
                 (case getProp data ''results'' of
                    Some (JArray results) \<Rightarrow> Inr results
                  | _ \<Rightarrow> Inl (JsError ''Invalid response format from API.''))))"

definition performPhonosemanticSearch ::
  "jsonParser \<Rightarrow> string option \<Rightarrow> filters \<Rightarrow> reply \<Rightarrow> request list \<times> json list outcome" where
  "performPhonosemanticSearch parse key f remote =
     (if noKey key then ([], Raised ''API_KEY is not configured.'')
      else
        ([SearchReq (position f) (languages f) (fuzzy f)],
         (case searchBody parse remote of
            Inr results \<Rightarrow> Returned results
          | Inl error \<Rightarrow>
              Raised (''Could not perform phonosemantic search: '' @ messageOf error))))"

subsection \<open>getScriptForWord\<close>

text \<open>
  The \<open>try\<close> block, lines 428 to 439: the trimmed text goes to \<open>JSON.parse\<close> as it
  is.  \<open>parsed.script\<close> throws on \<open>null\<close>; a value that passes the check is an object,
  since only an object has a \<open>script\<close> property.
\<close>

definition scriptBody :: "jsonParser \<Rightarrow> string \<Rightarrow> string \<Rightarrow> reply \<Rightarrow> thrown + json" where
  "scriptBody parse word language r =
     (case responseText r of
        Inl e \<Rightarrow> Inl e
      | Inr jsonStr \<Rightarrow>
          (case parse jsonStr of
             Inl m \<Rightarrow> Inl (JsError m)
           | Inr parsed \<Rightarrow>
               if parsed = JNull then Inl (JsError (nullReadMessage ''script''))
               else if \<not> truthyProp (getProp parsed ''script'') then
                 Inl (JsError (''Could not find a representation for '' @ [dq] @ word @ [dq]
                                 @ '' in '' @ language @ ''.''))
               else
                 (case parsed of
                    JObject fs \<Rightarrow>
                      Inr (JObject (setProp ''word'' (JString word)
                                      (setProp ''language'' (JString language) fs)))
                  | _ \<Rightarrow> Inr (JObject [(''language'', JString language), (''word'', JString word)]))))"

definition getScriptForWord ::
  "jsonParser \<Rightarrow> string option \<Rightarrow> string \<Rightarrow> string \<Rightarrow> reply \<Rightarrow> request list \<times> json outcome" where
  "getScriptForWord parse key word language remote =
     (if noKey key then ([], Raised ''API_KEY is not configured.'')
      else
        ([ScriptReq word language],
         (case scriptBody parse word language remote of
            Inr result \<Rightarrow> Returned result
          | Inl error \<Rightarrow>
              Raised (''Could not get script for '' @ [dq] @ word @ [dq] @ '' in '' @ language
                        @ '': '' @ messageOf error))))"

subsection \<open>Notation for the statements\<close>

text \<open>A text between double quotes, and a payload inside a \<open>json\<close> fence.\<close>

definition quoted :: "string \<Rightarrow> string" where
  "quoted s = [dq] @ s @ [dq]"

definition fenced :: "string \<Rightarrow> string" where
  "fenced payload = fence @ ''json'' @ [nl] @ payload @ [nl] @ fence"

definition isRaised :: "'a outcome \<Rightarrow> bool" where
  "isRaised out = (case out of Raised _ \<Rightarrow> True | Returned _ \<Rightarrow> False)"

text \<open>The bound on the number of concepts, as the data model of the specification words it.\<close>

definition conceptCountInRange :: "json list outcome \<Rightarrow> bool" where
  "conceptCountInRange out =
     (case out of Returned concepts \<Rightarrow> 3 \<le> length concepts \<and> length concepts \<le> 5 | Raised _ \<Rightarrow> True)"

section \<open>The wiki-mode controller\<close>

subsection \<open>Words for the random button\<close>

definition PREDEFINED_WORDS :: "string list" where
  "PREDEFINED_WORDS = [
    ''Balance'', ''Harmony'', ''Discord'', ''Unity'', ''Fragmentation'', ''Clarity'',
    ''Ambiguity'', ''Presence'', ''Absence'', ''Creation'', ''Destruction'', ''Light'',
    ''Shadow'', ''Beginning'', ''Ending'', ''Rising'', ''Falling'', ''Connection'',
    ''Isolation'', ''Hope'', ''Despair'', ''Order and chaos'', ''Light and shadow'',
    ''Sound and silence'', ''Form and formlessness'', ''Being and nonbeing'',
    ''Presence and absence'', ''Motion and stillness'', ''Unity and multiplicity'',
    ''Finite and infinite'', ''Sacred and profane'', ''Memory and forgetting'',
    ''Question and answer'', ''Search and discovery'', ''Journey and destination'',
    ''Dream and reality'', ''Time and eternity'', ''Self and other'',
    ''Known and unknown'', ''Spoken and unspoken'', ''Visible and invisible'', ''Zigzag'',
    ''Waves'', ''Spiral'', ''Bounce'', ''Slant'', ''Drip'', ''Stretch'', ''Squeeze'',
    ''Float'', ''Fall'', ''Spin'', ''Melt'', ''Rise'', ''Twist'', ''Explode'', ''Stack'',
    ''Mirror'', ''Echo'', ''Vibrate'', ''Gravity'', ''Friction'', ''Momentum'',
    ''Inertia'', ''Turbulence'', ''Pressure'', ''Tension'', ''Oscillate'', ''Fractal'',
    ''Quantum'', ''Entropy'', ''Vortex'', ''Resonance'', ''Equilibrium'', ''Centrifuge'',
    ''Elastic'', ''Viscous'', ''Refract'', ''Diffuse'', ''Cascade'', ''Levitate'',
    ''Magnetize'', ''Polarize'', ''Accelerate'', ''Compress'', ''Undulate'', ''Liminal'',
    ''Ephemeral'', ''Paradox'', ''Zeitgeist'', ''Metamorphosis'', ''Synesthesia'',
    ''Recursion'', ''Emergence'', ''Dialectic'', ''Apophenia'', ''Limbo'', ''Flux'',
    ''Sublime'', ''Uncanny'', ''Palimpsest'', ''Chimera'', ''Void'', ''Transcend'',
    ''Ineffable'', ''Qualia'', ''Gestalt'', ''Simulacra'', ''Abyssal'', ''Existential'',
    ''Nihilism'', ''Solipsism'', ''Phenomenology'', ''Hermeneutics'', ''Deconstruction'',
    ''Postmodern'', ''Absurdism'', ''Catharsis'', ''Epiphany'', ''Melancholy'',
    ''Nostalgia'', ''Longing'', ''Reverie'', ''Pathos'', ''Ethos'', ''Logos'', ''Mythos'',
    ''Anamnesis'', ''Intertextuality'', ''Metafiction'', ''Stream'', ''Lacuna'',
    ''Caesura'', ''Enjambment'']"

text \<open>
  \<open>[...new Set(PREDEFINED_WORDS)]\<close>: a \<open>Set\<close> keeps each value once, in the order of
  first insertion.
\<close>

definition setInsert :: "string list \<Rightarrow> string \<Rightarrow> string list" where
  "setInsert acc w = (if w \<in> set acc then acc else acc @ [w])"

definition UNIQUE_WORDS :: "string list" where
  "UNIQUE_WORDS = foldl setInsert [] PREDEFINED_WORDS"

subsection \<open>Component state\<close>

text \<open>
  \<open>String.prototype.toLowerCase\<close> on the modelled code units: the letters \<open>A\<close> to \<open>Z\<close>
  and the Latin-1 capitals \<open>0xC0\<close> to \<open>0xDE\<close> (without the multiplication sign
  \<open>0xD7\<close>) move up by \<open>0x20\<close>; every other code unit stays.
\<close>

definition lowerChar :: "char \<Rightarrow> char" where
  "lowerChar c =
     (let n = (of_char c :: nat) in
      if (65 \<le> n \<and> n \<le> 90) \<or> (192 \<le> n \<and> n \<le> 222 \<and> n \<noteq> 215) then char_of (n + 32)
      else c)"

definition toLowerCase :: "string \<Rightarrow> string" where
  "toLowerCase s = map lowerChar s"

datatype mode = Wiki | Miner | Writer

text \<open>
  The art slot of the page: nothing yet, the generated art, or the fallback box.  The box
  of \<open>createFallbackArt\<close> is drawn with box-drawing characters, which lie outside the
  modelled code units, so it is kept as the text it frames.
\<close>

datatype artSlot = NoArt | Generated AsciiArtData | FallbackBox string

text \<open>
  \<^verbatim>\<open>const displayableTopic = topic.length > 20 ? topic.substring(0, 17) + '...' : topic;\<close>
\<close>

definition createFallbackArt :: "string \<Rightarrow> artSlot" where
  "createFallbackArt topic =
     FallbackBox (if length topic > 20 then take 17 topic @ ''...'' else topic)"

text \<open>
  The \<open>useState\<close> slots of \<open>App\<close>.  \<open>generationTime\<close>, a difference of two clock
  readings that nothing else reads, is left out.
\<close>

record appState =
  currentTopic :: string
  content :: string
  isLoading :: bool
  error :: "string option"
  asciiArt :: artSlot
  culturalConcepts :: "json list"
  isCulturalLoading :: bool
  culturalError :: "string option"
  mode :: mode

subsection \<open>Event handlers\<close>

definition handleWordClick :: "string \<Rightarrow> appState \<Rightarrow> appState" where
  "handleWordClick word a =
     (let newTopic = trim word in
      if newTopic \<noteq> [] \<and> toLowerCase newTopic \<noteq> toLowerCase (currentTopic a) then
        a\<lparr>currentTopic := newTopic, mode := Wiki\<rparr>
      else a)"

definition handleSearch :: "string \<Rightarrow> appState \<Rightarrow> appState" where
  "handleSearch topic a =
     (let newTopic = trim topic in
      if newTopic \<noteq> [] \<and> toLowerCase newTopic \<noteq> toLowerCase (currentTopic a) then
        a\<lparr>currentTopic := newTopic, mode := Wiki\<rparr>
      else a)"

text \<open>
  \<open>randomIndex\<close> is \<open>Math.floor(Math.random() * UNIQUE_WORDS.length)\<close>, an index below
  the length of the list since \<open>Math.random()\<close> is below one.
\<close>

definition handleRandom :: "nat \<Rightarrow> appState \<Rightarrow> appState" where
  "handleRandom randomIndex a =
     (let a' = a\<lparr>isLoading := True, error := None, content := [], asciiArt := NoArt,
                   mode := Wiki\<rparr>;
          randomWord = UNIQUE_WORDS ! randomIndex
      in if toLowerCase randomWord = toLowerCase (currentTopic a) then
           a'\<lparr>currentTopic := UNIQUE_WORDS ! ((randomIndex + 1) mod length UNIQUE_WORDS)\<rparr>
         else a'\<lparr>currentTopic := randomWord\<rparr>)"

subsection \<open>Clickable words\<close>

text \<open>
  \<open>content.split(/(\s+)/).filter(Boolean)\<close>: the maximal runs of white space and of other
  code units, in order.
\<close>

function splitWords :: "string \<Rightarrow> string list" where
  "splitWords [] = []"
| "splitWords (c # cs) =
     takeWhile (\<lambda>x. isWhiteSpace x = isWhiteSpace c) (c # cs)
       # splitWords (dropWhile (\<lambda>x. isWhiteSpace x = isWhiteSpace c) (c # cs))"
  by pat_completeness auto
termination
  by (relation "measure length") (auto simp: less_Suc_eq_le length_dropWhile_le)

text \<open>The class \<open>[.,!?;:()"']\<close>.\<close>

definition isPunctuation :: "char \<Rightarrow> bool" where
  "isPunctuation c \<longleftrightarrow>
     c = CHR ''.'' \<or> c = CHR '','' \<or> c = CHR ''!'' \<or> c = CHR ''?'' \<or> c = CHR '';'' \<or>
     c = CHR '':'' \<or> c = CHR ''('' \<or> c = CHR '')'' \<or> c = CHR 0x22 \<or> c = CHR 0x27"

text \<open>\<open>word.replace(/[.,!?;:()"']/g, '')\<close>\<close>

definition cleanWord :: "string \<Rightarrow> string" where
  "cleanWord word = filter (\<lambda>c. \<not> isPunctuation c) word"

text \<open>
  What a word of \<open>InteractiveContent\<close> passes to \<open>onWordClick\<close> when clicked; \<open>None\<close>
  for a word rendered as a plain \<open>span\<close>.
\<close>

definition clickTarget :: "string \<Rightarrow> string option" where
  "clickTarget word =
     (if list_ex (\<lambda>c. \<not> isWhiteSpace c) word then
        (if cleanWord word \<noteq> [] then Some (cleanWord word) else None)
      else None)"

text \<open>
  What a button of \<open>CulturalConceptsDisplay\<close> passes to \<open>onConceptClick\<close>:
  \<open>concept.term\<close> as it is.  \<open>None\<close> stands for a term that is not a string, on which
  the handler's \<open>word.trim()\<close> throws.
\<close>

definition conceptClickTarget :: "json \<Rightarrow> string option" where
  "conceptClickTarget concept =
     (case getProp concept ''term'' of Some (JString term) \<Rightarrow> Some term | _ \<Rightarrow> None)"

text \<open>
  Stripping surrounding punctuation, as the specification words it: the punctuation marks
  at the two ends of the word go, what lies between stays.  Punctuation is taken as the
  ASCII punctuation marks.
\<close>

definition isAsciiPunctuation :: "char \<Rightarrow> bool" where
  "isAsciiPunctuation c =
     (let n = (of_char c :: nat) in
      (33 \<le> n \<and> n \<le> 47) \<or> (58 \<le> n \<and> n \<le> 64) \<or> (91 \<le> n \<and> n \<le> 96)
        \<or> (123 \<le> n \<and> n \<le> 126))"

definition surroundingPunctuationStripped :: "string \<Rightarrow> string" where
  "surroundingPunctuationStripped word =
     rev (dropWhile isAsciiPunctuation (rev (dropWhile isAsciiPunctuation word)))"

subsection \<open>The fetch effect\<close>

text \<open>
  Each run of the effect \<open>useEffect(() => { ... }, [currentTopic, mode])\<close> that gets past
  its guard has its own \<open>isCancelled\<close> and \<open>accumulatedContent\<close>, and captures the
  topic of its render.  \<open>streamOpen\<close> says that the \<open>for await\<close> loop has not been left
  yet; \<open>artPending\<close> and \<open>conceptsPending\<close> that the promise has not settled yet.
\<close>

record fetch =
  fetchTopic :: string
  isCancelled :: bool
  accumulatedContent :: string
  streamOpen :: bool
  artPending :: bool
  conceptsPending :: bool

text \<open>
  The component with its effect runs: \<open>cleanup\<close> is the run whose cleanup function React
  holds, \<open>sent\<close> the requests dispatched so far.
\<close>

record system =
  app :: appState
  fetches :: "fetch list"
  cleanup :: "nat option"
  sent :: "request list"

definition updateApp :: "(appState \<Rightarrow> appState) \<Rightarrow> system \<Rightarrow> system" where
  "updateApp f s = s\<lparr>app := f (app s)\<rparr>"

definition updateFetch :: "nat \<Rightarrow> (fetch \<Rightarrow> fetch) \<Rightarrow> system \<Rightarrow> system" where
  "updateFetch i f s = s\<lparr>fetches := (fetches s)[i := f (fetches s ! i)]\<rparr>"

text \<open>
  The synchronous start of \<open>fetchAllData\<close>: the eight resets, then the three gateway
  calls, each of which dispatches its request at once unless the credential is missing.
\<close>

definition startFetch :: "string option \<Rightarrow> system \<Rightarrow> system" where
  "startFetch key s =
     (let topic = currentTopic (app s) in
      s\<lparr>app := (app s)\<lparr>isLoading := True, error := None, content := [], asciiArt := NoArt,
                        isCulturalLoading := True, culturalConcepts := [],
                        culturalError := None\<rparr>,
        fetches := fetches s @
          [\<lparr>fetchTopic = topic, isCancelled = False, accumulatedContent = [],
            streamOpen = True, artPending = True, conceptsPending = True\<rparr>],
        cleanup := Some (length (fetches s)),
        sent := sent s @
          (if noKey key then []
           else [AsciiArtReq topic, ConceptsReq topic, StreamDefinitionReq topic])\<rparr>)"

text \<open>\<open>return () => { isCancelled = true; };\<close>\<close>

definition runCleanup :: "system \<Rightarrow> system" where
  "runCleanup s =
     (case cleanup s of
        None \<Rightarrow> s
      | Some i \<Rightarrow> (updateFetch i (\<lambda>f. f\<lparr>isCancelled := True\<rparr>) s)\<lparr>cleanup := None\<rparr>)"

text \<open>
  What React does after a handler has run, \<open>before\<close> being the state of the previous
  render: when \<open>currentTopic\<close> or \<open>mode\<close> differs, the cleanup of the previous effect run
  is called and the effect runs again, returning early under the guard
  \<open>if (!currentTopic || mode !== 'wiki') return;\<close>.  Cleanup and effect run before any
  further chunk or promise result is delivered.
\<close>

definition rerender :: "string option \<Rightarrow> appState \<Rightarrow> system \<Rightarrow> system" where
  "rerender key before s =
     (if currentTopic (app s) = currentTopic before \<and> mode (app s) = mode before then s
      else
        (let s' = runCleanup s in
         if currentTopic (app s') \<noteq> [] \<and> mode (app s') = Wiki then startFetch key s'
         else s'))"

text \<open>The first render: topic \<open>Hypertext\<close> in wiki mode, and the effect runs.\<close>

definition initialApp :: appState where
  "initialApp =
     \<lparr>currentTopic = ''Hypertext'', content = [], isLoading = True, error = None,
      asciiArt = NoArt, culturalConcepts = [], isCulturalLoading = False,
      culturalError = None, mode = Wiki\<rparr>"

definition mount :: "string option \<Rightarrow> system" where
  "mount key = startFetch key \<lparr>app = initialApp, fetches = [], cleanup = None, sent = []\<rparr>"

subsection \<open>Events\<close>

text \<open>
  What the event loop delivers to the component: a user action, or a result for the effect
  run of the given index (a promise settling, the stream yielding a chunk, finishing or
  throwing).
\<close>

datatype event =
    WordClick string
  | Search string
  | Random nat
  | SetMode mode
  | ArtResolved nat AsciiArtData
  | ArtRejected nat thrown
  | ConceptsResolved nat "json list"
  | ConceptsRejected nat thrown
  | StreamChunk nat string
  | StreamDone nat
  | StreamThrew nat thrown

text \<open>
  The \<open>then\<close> and \<open>catch\<close> of \<open>generateAsciiArt(currentTopic)\<close>, where
  \<open>currentTopic\<close> is the topic the run captured.
\<close>

definition artSettled :: "nat \<Rightarrow> (fetch \<Rightarrow> artSlot) \<Rightarrow> system \<Rightarrow> system" where
  "artSettled i slot s =
     (if i < length (fetches s) \<and> artPending (fetches s ! i) then
        (let s' = updateFetch i (\<lambda>f. f\<lparr>artPending := False\<rparr>) s in
         if isCancelled (fetches s ! i) then s'
         else updateApp (\<lambda>a. a\<lparr>asciiArt := slot (fetches s ! i)\<rparr>) s')
      else s)"

text \<open>The \<open>then\<close>, \<open>catch\<close> and \<open>finally\<close> of \<open>getCrossCulturalConcepts(currentTopic)\<close>.\<close>

definition conceptsSettled :: "nat \<Rightarrow> (appState \<Rightarrow> appState) \<Rightarrow> system \<Rightarrow> system" where
  "conceptsSettled i f s =
     (if i < length (fetches s) \<and> conceptsPending (fetches s ! i) then
        (let s' = updateFetch i (\<lambda>f. f\<lparr>conceptsPending := False\<rparr>) s in
         if isCancelled (fetches s ! i) then s'
         else updateApp (\<lambda>a. (f a)\<lparr>isCulturalLoading := False\<rparr>) s')
      else s)"

text \<open>
  Leaving the loop: \<open>failure\<close> is the message of the caught value when the loop is left
  by a throw.  The \<open>catch\<close> and \<open>finally\<close> blocks update the state unless the run is
  cancelled.
\<close>

definition leaveLoop :: "nat \<Rightarrow> string option \<Rightarrow> system \<Rightarrow> system" where
  "leaveLoop i failure s =
     (let s' = updateFetch i (\<lambda>f. f\<lparr>streamOpen := False\<rparr>) s in
      if isCancelled (fetches s ! i) then s'
      else
        updateApp (\<lambda>a.
          (case failure of
             None \<Rightarrow> a
           | Some errorMessage \<Rightarrow> a\<lparr>error := Some errorMessage, content := []\<rparr>)
          \<lparr>isLoading := False\<rparr>) s')"

text \<open>
  One turn of the loop body, lines 481 to 491, for a chunk the generator yields.
\<close>

definition streamChunk :: "nat \<Rightarrow> string \<Rightarrow> system \<Rightarrow> system" where
  "streamChunk i chunk s =
     (if i < length (fetches s) \<and> streamOpen (fetches s ! i) then
        (if isCancelled (fetches s ! i) then leaveLoop i None s
         else if startsWith chunk ''Error:'' then leaveLoop i (Some chunk) s
         else
           (let accumulated = accumulatedContent (fetches s ! i) @ chunk;
                s' = updateFetch i (\<lambda>f. f\<lparr>accumulatedContent := accumulated\<rparr>) s
            in updateApp (\<lambda>a. a\<lparr>content := accumulated\<rparr>) s'))
      else s)"

definition streamEnd :: "nat \<Rightarrow> string option \<Rightarrow> system \<Rightarrow> system" where
  "streamEnd i failure s =
     (if i < length (fetches s) \<and> streamOpen (fetches s ! i) then leaveLoop i failure s
      else s)"

text \<open>
  \<open>SearchBar\<close> is rendered in wiki mode only.  Its \<open>handleSubmit\<close> passes the trimmed
  query on under \<open>if (query.trim() && !isLoading)\<close>; its Random button is
  \<open>disabled={isLoading}\<close>.
\<close>

definition handleSubmit :: "string \<Rightarrow> appState \<Rightarrow> appState" where
  "handleSubmit query a =
     (if trim query \<noteq> [] \<and> \<not> isLoading a then handleSearch (trim query) a else a)"

text \<open>
  One turn of the event loop.  \<open>WordClick text\<close> is a call \<open>handleWordClick(text)\<close> by a
  word button or a concept button; the model lets it happen in every state, also where the
  page shows no such button.
\<close>

definition step :: "string option \<Rightarrow> system \<Rightarrow> event \<Rightarrow> system" where
  "step key s e =
     (case e of
        WordClick word \<Rightarrow> rerender key (app s) (updateApp (handleWordClick word) s)
      | Search query \<Rightarrow>
          if mode (app s) = Wiki then rerender key (app s) (updateApp (handleSubmit query) s)
          else s
      | Random randomIndex \<Rightarrow>
          if mode (app s) = Wiki \<and> \<not> isLoading (app s) \<and> randomIndex < length UNIQUE_WORDS then
            rerender key (app s) (updateApp (handleRandom randomIndex) s)
          else s
      | SetMode m \<Rightarrow> rerender key (app s) (updateApp (\<lambda>a. a\<lparr>mode := m\<rparr>) s)
      | ArtResolved i a \<Rightarrow> artSettled i (\<lambda>f. Generated a) s
      | ArtRejected i err \<Rightarrow> artSettled i (\<lambda>f. createFallbackArt (fetchTopic f)) s
      | ConceptsResolved i concepts \<Rightarrow>
          conceptsSettled i (\<lambda>a. a\<lparr>culturalConcepts := concepts\<rparr>) s
      | ConceptsRejected i err \<Rightarrow>
          conceptsSettled i (\<lambda>a. a\<lparr>culturalError := Some
            (case err of JsError m \<Rightarrow> m | NonError \<Rightarrow> ''Could not load concepts.'')\<rparr>) s
      | StreamChunk i chunk \<Rightarrow> streamChunk i chunk s
      | StreamDone i \<Rightarrow> streamEnd i None s
      | StreamThrew i err \<Rightarrow>
          streamEnd i (Some (case err of JsError m \<Rightarrow> m
                                        | NonError \<Rightarrow> ''An unknown error occurred'')) s)"

definition run :: "string option \<Rightarrow> system \<Rightarrow> event list \<Rightarrow> system" where
  "run key s evs = foldl (step key) s evs"

text \<open>The events of effect runs, and the run an event belongs to.\<close>

definition eventRun :: "event \<Rightarrow> nat option" where
  "eventRun e =
     (case e of
        ArtResolved i _ \<Rightarrow> Some i
      | ArtRejected i _ \<Rightarrow> Some i
      | ConceptsResolved i _ \<Rightarrow> Some i
      | ConceptsRejected i _ \<Rightarrow> Some i
      | StreamChunk i _ \<Rightarrow> Some i
      | StreamDone i \<Rightarrow> Some i
      | StreamThrew i _ \<Rightarrow> Some i
      | _ \<Rightarrow> None)"

text \<open>
  What the page shows as the definition: \<open>ContentDisplay\<close> is rendered only under
  \<open>content.length > 0 && !error\<close>, and \<open>!error\<close> holds for \<open>null\<close> and for the empty
  message.
\<close>

definition displayedContent :: "appState \<Rightarrow> string option" where
  "displayedContent a =
     (if content a \<noteq> [] \<and> (error a = None \<or> error a = Some []) then Some (content a)
      else None)"

subsection \<open>Invariant of the effect runs\<close>

text \<open>
  Every effect run but the one whose cleanup React holds is cancelled, and that one exists
  and is not cancelled.
\<close>

definition othersCancelled :: "system \<Rightarrow> bool" where
  "othersCancelled s \<longleftrightarrow>
     (\<forall>j < length (fetches s). cleanup s \<noteq> Some j \<longrightarrow> isCancelled (fetches s ! j))
     \<and> (\<forall>k. cleanup s = Some k \<longrightarrow> k < length (fetches s) \<and> \<not> isCancelled (fetches s ! k))"

section \<open>Properties of the API gateway\<close>

subsection \<open>Attempts of generateAsciiArt\<close>

text \<open>
  The loop leaves at the attempt numbered \<open>maxRetries\<close>, whatever that attempt gives, so
  with \<open>maxRetries = 1\<close> a configured call sends one request.
\<close>

lemma artLoop_last_attempt:
  "fst (artLoop parse remote topic n n lastError reqs) = reqs @ [AsciiArtReq topic]"
  by (simp split: sum.splits thrown.splits)

lemma generateAsciiArt_one_request:
  "\<not> noKey key \<Longrightarrow> fst (generateAsciiArt parse key topic remote) = [AsciiArtReq topic]"
  by (simp only: generateAsciiArt_def maxRetries_def artLoop_last_attempt if_False append_Nil)

text \<open>With a bound of two the same loop does ask for the second reply.\<close>

lemma artLoop_retries_under_larger_bound:
  "artLoop JSON_parse
     (\<lambda>attempt. if attempt = 1 then Text ''not json'' else Text (''{'' @ quoted ''art'' @ '':'' @ quoted ''X'' @ ''}''))
     ''flow'' 2 1 None []
   = ([AsciiArtReq ''flow'', AsciiArtReq ''flow''], Returned \<lparr>art = ''X'', artText = None\<rparr>)"
  by code_simp

text \<open>
  Claim C1.  The claim says that a response failing validation is followed by a second
  attempt.  With a credential, a first response \<open>not json\<close> and a second response that would
  validate, the code sends a single request and raises after one attempt: the second reply
  is never asked for.
\<close>

theorem generateAsciiArt_no_second_attempt:
  "generateAsciiArt JSON_parse (Some ''k'') ''flow''
     (\<lambda>attempt. if attempt = 1 then Text ''not json'' else Text (''{'' @ quoted ''art'' @ '':'' @ quoted ''X'' @ ''}''))
   = ([AsciiArtReq ''flow''],
      Raised ''Could not generate ASCII art after 1 attempts: Response is not a valid JSON object'')"
  by code_simp

subsection \<open>Missing credential\<close>

text \<open>
  Claim C2.  Without a credential each of the six operations sends no request:
  \<open>streamDefinition\<close> yields its configuration fragment, the other five raise the
  configuration error.
\<close>

theorem no_credential_short_circuit:
  assumes "noKey key"
  shows "streamDefinition key topic stream =
           \<lparr>requests = [], yielded = [configurationFragment], ending = Completed\<rparr>
       \<and> getRandomWord key r = ([], Raised ''API_KEY is not configured.'')
       \<and> generateAsciiArt parse key topic remote = ([], Raised ''API_KEY is not configured.'')
       \<and> getCrossCulturalConcepts parse key topic r = ([], Raised ''API_KEY is not configured.'')
       \<and> performPhonosemanticSearch parse key f r = ([], Raised ''API_KEY is not configured.'')
       \<and> getScriptForWord parse key word language r = ([], Raised ''API_KEY is not configured.'')"
  using assms
  by (simp add: streamDefinition_def getRandomWord_def generateAsciiArt_def
      getCrossCulturalConcepts_def performPhonosemanticSearch_def getScriptForWord_def)

theorem no_credential_short_circuit_witness:
  "noKey None
   \<and> streamDefinition None ''cat'' (StreamReply [Some ''A cat''] None) =
        \<lparr>requests = [], yielded = [configurationFragment], ending = Completed\<rparr>
   \<and> getRandomWord None (Text ''owl'') = ([], Raised ''API_KEY is not configured.'')
   \<and> generateAsciiArt JSON_parse None ''cat'' (\<lambda>n. Text ''{}'') = ([], Raised ''API_KEY is not configured.'')
   \<and> getCrossCulturalConcepts JSON_parse None ''cat'' (Text ''owl'') = ([], Raised ''API_KEY is not configured.'')
   \<and> performPhonosemanticSearch JSON_parse None
         \<lparr>position = AnyPosition, languages = ''Greek'', fuzzy = False\<rparr> (Text ''owl'')
        = ([], Raised ''API_KEY is not configured.'')
   \<and> getScriptForWord JSON_parse None ''sun'' ''Greek'' (Text ''owl'') = ([], Raised ''API_KEY is not configured.'')"
proof -
  have h: "noKey None" by (simp add: noKey_def)
  show ?thesis
    using h no_credential_short_circuit [OF h, of "''cat''" "StreamReply [Some ''A cat''] None" "Text ''owl''"
      JSON_parse "\<lambda>n. Text ''{}''" "\<lparr>position = AnyPosition, languages = ''Greek'', fuzzy = False\<rparr>" "''sun''" "''Greek''"]
    by simp
qed

subsection \<open>Fenced responses\<close>

text \<open>
  Claim C3.  The claim says that all four JSON operations unwrap a fenced response before
  parsing.  \<open>getScriptForWord\<close> hands the fenced text to the parser as it is: the fenced
  payload raises, the same payload without the fence returns.
\<close>

theorem getScriptForWord_keeps_fence:
  "isRaised (snd (getScriptForWord JSON_parse (Some ''k'') ''sun'' ''Greek''
      (Text (fenced (''{'' @ quoted ''script'' @ '':'' @ quoted ''X'' @ ''}'')))))
   \<and> snd (getScriptForWord JSON_parse (Some ''k'') ''sun'' ''Greek''
      (Text (''{'' @ quoted ''script'' @ '':'' @ quoted ''X'' @ ''}'')))
     = Returned (JObject [(''script'', JString ''X''), (''language'', JString ''Greek''),
                          (''word'', JString ''sun'')])"
  by code_simp

text \<open>The other three operations unwrap the fence of the same shape.\<close>

lemma fence_stripped_by_siblings:
  "snd (generateAsciiArt JSON_parse (Some ''k'') ''flow''
          (\<lambda>attempt. Text (fenced (''{'' @ quoted ''art'' @ '':'' @ quoted ''X'' @ ''}''))))
     = Returned \<lparr>art = ''X'', artText = None\<rparr>
   \<and> snd (getCrossCulturalConcepts JSON_parse (Some ''k'') ''flow'' (Text (fenced ''[]''))) = Returned []
   \<and> snd (performPhonosemanticSearch JSON_parse (Some ''k'')
            \<lparr>position = AnyPosition, languages = ''Greek'', fuzzy = False\<rparr>
            (Text (fenced (''{'' @ quoted ''results'' @ '':[]}'')))) = Returned []"
  by code_simp

text \<open>Trimming twice is trimming once, for a text that is not all white space.\<close>

lemma trimEnd_prefix: "s = trimEnd s @ rev (takeWhile isWhiteSpace (rev s))"
proof -
  have "rev (takeWhile isWhiteSpace (rev s) @ dropWhile isWhiteSpace (rev s)) = s"
    by (simp only: takeWhile_dropWhile_id rev_rev_ident)
  then show ?thesis by (simp only: rev_append trimEnd_def)
qed

lemma trimEnd_idem: "trimEnd (trimEnd s) = trimEnd s"
  by (simp add: trimEnd_def dropWhile_idem)

lemma trimEnd_head:
  assumes "s \<noteq> []" and "\<not> isWhiteSpace (hd s)"
  shows "trimEnd s \<noteq> [] \<and> hd (trimEnd s) = hd s"
proof -
  have "trimEnd s \<noteq> []"
  proof
    assume e: "trimEnd s = []"
    with trimEnd_prefix [of s] have "s = rev (takeWhile isWhiteSpace (rev s))" by simp
    then have "set s = set (takeWhile isWhiteSpace (rev s))" by (metis set_rev)
    moreover have "hd s \<in> set s" using assms(1) by simp
    ultimately have "isWhiteSpace (hd s)" by (metis set_takeWhileD)
    with assms(2) show False by simp
  qed
  moreover from this trimEnd_prefix [of s] have "hd s = hd (trimEnd s)"
    by (metis hd_append2)
  ultimately show ?thesis by simp
qed

lemma trim_payload:
  assumes "list_ex (\<lambda>c. \<not> isWhiteSpace c) payload"
  shows "trim payload \<noteq> [] \<and> trim (trim payload) = trim payload"
proof -
  let ?q = "trimStart payload"
  have q: "?q \<noteq> []" "\<not> isWhiteSpace (hd ?q)"
    using assms by (auto simp: trimStart_def list_ex_iff hd_dropWhile)
  from trimEnd_head [OF q] have h: "trimEnd ?q \<noteq> []" "\<not> isWhiteSpace (hd (trimEnd ?q))"
    using q(2) by simp_all
  then have "trimStart (trimEnd ?q) = trimEnd ?q"
    by (cases "trimEnd ?q") (simp_all add: trimStart_def)
  then show ?thesis using h(1) by (simp add: trim_def trimEnd_idem)
qed

text \<open>
  For a payload that is not all white space, the three operations that apply
  \<open>stripFence\<close> hand the trimmed payload of a fenced response to \<open>JSON.parse\<close>.
\<close>

lemma stripFence_fenced:
  assumes "list_ex (\<lambda>c. \<not> isWhiteSpace c) payload"
  shows "stripFence (trim (fenced payload)) = trim payload"
proof -
  have ws: "isWhiteSpace nl" by (simp add: isWhiteSpace_def nl_def)
  have bt: "\<not> isWhiteSpace (CHR 0x60)" by (simp add: isWhiteSpace_def)
  have tf: "trim (fenced payload) = fenced payload"
    using bt by (simp add: trim_def trimStart_def trimEnd_def fenced_def fence_def)
  from assms obtain x where x: "x \<in> set payload" "\<not> isWhiteSpace x"
    by (auto simp: list_ex_iff)
  have r: "dropWhile isWhiteSpace (nl # payload @ [nl] @ fence) = trimStart payload @ [nl] @ fence"
    using ws x by (simp add: trimStart_def dropWhile_append1)
  have e: "trimEnd (trimStart payload @ [nl]) = trim payload"
    using ws by (simp add: trimEnd_def trim_def)
  have m: "fenceMatch (fenced payload) = Some (trim payload)"
    using r e
    by (simp add: fenceMatch_def fenced_def startsWith_def endsWith_def fence_def Let_def)
  show ?thesis
    using trim_payload [OF assms] by (simp add: stripFence_def tf m)
qed

subsection \<open>Failure of streamDefinition\<close>

text \<open>
  Claim C4, as stated, fails: it says that every failure, the missing credential included,
  ends in a raised error.  Without a credential the generator yields its one fragment and
  completes.
\<close>

theorem streamDefinition_no_key_completes:
  "yielded (streamDefinition None ''cat'' (StreamReply [Some ''A cat''] None)) = [configurationFragment]
   \<and> ending (streamDefinition None ''cat'' (StreamReply [Some ''A cat''] None)) = Completed"
  by (simp add: streamDefinition_def noKey_def)

text \<open>
  Claim C4, amended.  Without a credential \<open>streamDefinition\<close> yields exactly one fragment
  starting with \<open>Error:\<close>, sends nothing and completes without raising.  With a credential,
  when the remote call or the iteration throws, it yields the texts received so far, then
  exactly one fragment starting with \<open>Error:\<close>, and then raises with the message of the
  thrown value.
\<close>

theorem streamDefinition_failure_paths:
  "(noKey key \<longrightarrow>
      streamDefinition key topic stream =
        \<lparr>requests = [], yielded = [configurationFragment], ending = Completed\<rparr>)
   \<and> (\<not> noKey key \<longrightarrow>
      streamDefinition key topic (StreamReply chunks (Some err)) =
        \<lparr>requests = [StreamDefinitionReq topic],
         yielded = chunkTexts chunks @ [failureFragment topic (messageOf err)],
         ending = Threw (messageOf err)\<rparr>)
   \<and> startsWith configurationFragment ''Error:''
   \<and> startsWith (failureFragment topic (messageOf err)) ''Error:''"
  by (simp add: streamDefinition_def startsWith_def configurationFragment_def failureFragment_def)

theorem streamDefinition_failure_paths_witness:
  "noKey None \<and> \<not> noKey (Some ''k'')
   \<and> streamDefinition None ''cat'' (StreamReply [] None) =
        \<lparr>requests = [], yielded = [configurationFragment], ending = Completed\<rparr>
   \<and> streamDefinition (Some ''k'') ''cat'' (StreamReply [Some ''A cat''] (Some (JsError ''503''))) =
        \<lparr>requests = [StreamDefinitionReq ''cat''],
         yielded = [''A cat'', failureFragment ''cat'' ''503''],
         ending = Threw ''503''\<rparr>"
  using streamDefinition_failure_paths [of None "''cat''" "StreamReply [] None" "[Some ''A cat'']" "JsError ''503''"]
        streamDefinition_failure_paths [of "Some ''k''" "''cat''" "StreamReply [] None" "[Some ''A cat'']" "JsError ''503''"]
  by (simp add: noKey_def chunkTexts_def messageOf_def)

subsection \<open>Validation in performPhonosemanticSearch\<close>

text \<open>
  Claim C6.  For every filter value and every parsed payload: when the payload has no
  \<open>results\<close> property that is an array the operation raises; when it has one, that array
  is returned as it is, the empty array included.
\<close>

theorem search_results_validation:
  assumes "\<not> noKey key" and "parse (stripFence (trim t)) = Inr data"
  shows "((\<forall>results. getProp data ''results'' \<noteq> Some (JArray results)) \<longrightarrow>
            performPhonosemanticSearch parse key f (Text t) =
              ([SearchReq (position f) (languages f) (fuzzy f)],
               Raised ''Could not perform phonosemantic search: Invalid response format from API.''))
       \<and> (\<forall>results. getProp data ''results'' = Some (JArray results) \<longrightarrow>
            performPhonosemanticSearch parse key f (Text t) =
              ([SearchReq (position f) (languages f) (fuzzy f)], Returned results))"
proof -
  have obj: "truthy data" if "getProp data ''results'' = Some v" for v
    using that by (cases data) (simp_all add: getProp_def truthy_def)
  show ?thesis
    using assms obj
    by (auto simp: performPhonosemanticSearch_def searchBody_def responseText_def messageOf_def
             split: option.splits json.splits)
qed

theorem search_results_validation_witness:
  "\<not> noKey (Some ''k'')
   \<and> JSON_parse (stripFence (trim (''{'' @ quoted ''results'' @ '':[]}''))) = Inr (JObject [(''results'', JArray [])])
   \<and> JSON_parse (stripFence (trim ''{}'')) = Inr (JObject [])
   \<and> snd (performPhonosemanticSearch JSON_parse (Some ''k'')
        \<lparr>position = AnyPosition, languages = ''Greek'', fuzzy = False\<rparr>
        (Text (''{'' @ quoted ''results'' @ '':[]}''))) = Returned []
   \<and> snd (performPhonosemanticSearch JSON_parse (Some ''k'')
        \<lparr>position = AnyPosition, languages = ''Greek'', fuzzy = False\<rparr> (Text ''{}''))
       = Raised ''Could not perform phonosemantic search: Invalid response format from API.''"
proof -
  have k: "\<not> noKey (Some ''k'')" by (simp add: noKey_def)
  have p1: "JSON_parse (stripFence (trim (''{'' @ quoted ''results'' @ '':[]}''))) = Inr (JObject [(''results'', JArray [])])"
    by code_simp
  have p2: "JSON_parse (stripFence (trim ''{}'')) = Inr (JObject [])"
    by code_simp
  show ?thesis
    using k p1 p2
      search_results_validation [of "Some ''k''" JSON_parse "''{'' @ quoted ''results'' @ '':[]}''"
        "JObject [(''results'', JArray [])]" "\<lparr>position = AnyPosition, languages = ''Greek'', fuzzy = False\<rparr>"]
      search_results_validation [of "Some ''k''" JSON_parse "''{}''"
        "JObject []" "\<lparr>position = AnyPosition, languages = ''Greek'', fuzzy = False\<rparr>"]
    by (simp add: getProp_def)
qed

subsection \<open>Number of cultural concepts\<close>

text \<open>
  Claim C8, as stated, fails: it says that a returned list has three to five concepts.  The
  response \<open>[]\<close> is returned as the empty list.
\<close>

theorem concepts_length_counterexample:
  "\<not> conceptCountInRange (snd (getCrossCulturalConcepts JSON_parse (Some ''k'') ''home'' (Text ''[]'')))"
  by code_simp

text \<open>
  Claim C8, amended.  \<open>getCrossCulturalConcepts\<close> returns the array that the unwrapped
  response parses to, whatever its length, and raises when the parsed payload is not an
  array; the range of three to five is asked of the model in the prompt only.
\<close>

theorem concepts_returned_as_parsed:
  assumes "\<not> noKey key" and "parse (stripFence (trim t)) = Inr payload"
  shows "(\<forall>concepts. payload = JArray concepts \<longrightarrow>
            getCrossCulturalConcepts parse key topic (Text t) = ([ConceptsReq topic], Returned concepts))
       \<and> ((\<forall>concepts. payload \<noteq> JArray concepts) \<longrightarrow>
            getCrossCulturalConcepts parse key topic (Text t) =
              ([ConceptsReq topic],
               Raised ''Could not fetch cultural concepts: Response is not a valid array of concepts.''))"
  using assms
  by (auto simp: getCrossCulturalConcepts_def conceptsBody_def responseText_def messageOf_def
           split: json.splits)

theorem concepts_returned_as_parsed_witness:
  "\<not> noKey (Some ''k'')
   \<and> JSON_parse (stripFence (trim ''[]'')) = Inr (JArray [])
   \<and> JSON_parse (stripFence (trim ''{}'')) = Inr (JObject [])
   \<and> getCrossCulturalConcepts JSON_parse (Some ''k'') ''home'' (Text ''[]'') = ([ConceptsReq ''home''], Returned [])
   \<and> getCrossCulturalConcepts JSON_parse (Some ''k'') ''home'' (Text ''{}'') =
        ([ConceptsReq ''home''],
         Raised ''Could not fetch cultural concepts: Response is not a valid array of concepts.'')"
proof -
  have k: "\<not> noKey (Some ''k'')" by (simp add: noKey_def)
  have p1: "JSON_parse (stripFence (trim ''[]'')) = Inr (JArray [])" by code_simp
  have p2: "JSON_parse (stripFence (trim ''{}'')) = Inr (JObject [])" by code_simp
  show ?thesis
    using k p1 p2 concepts_returned_as_parsed [of "Some ''k''" JSON_parse "''[]''" "JArray []" "''home''"]
      concepts_returned_as_parsed [of "Some ''k''" JSON_parse "''{}''" "JObject []" "''home''"]
    by simp
qed

section \<open>Properties of the controller's handlers\<close>

subsection \<open>Clicking a word\<close>

text \<open>A text without white space is its own trim.\<close>

lemma dropWhile_none: "list_all (\<lambda>c. \<not> P c) s \<Longrightarrow> dropWhile P s = s"
  by (cases s) simp_all

lemma trim_without_space: "list_all (\<lambda>c. \<not> isWhiteSpace c) s \<Longrightarrow> trim s = s"
  by (simp add: trim_def trimStart_def trimEnd_def dropWhile_none)

text \<open>
  Every word of \<open>splitWords\<close> is a non-empty run of one kind, so a word with a code unit
  that is not white space has no white space at all.
\<close>

lemma takeWhile_all: "list_all P (takeWhile P xs)"
  by (induction xs) simp_all

lemma splitWords_uniform:
  "w \<in> set (splitWords s) \<Longrightarrow> w \<noteq> [] \<and> list_all (\<lambda>x. isWhiteSpace x = isWhiteSpace (hd w)) w"
proof (induction s rule: splitWords.induct)
  case 1
  then show ?case by simp
next
  case (2 c cs)
  let ?P = "\<lambda>x. isWhiteSpace x = isWhiteSpace c"
  from "2.prems"
  have "w = takeWhile ?P (c # cs) \<or> w \<in> set (splitWords (dropWhile ?P (c # cs)))"
    by (simp only: splitWords.simps list.set insert_iff)
  then show ?case
  proof
    assume w: "w = takeWhile ?P (c # cs)"
    have "takeWhile ?P (c # cs) = c # takeWhile ?P cs" by simp
    with w have hw: "hd w = c" and ne: "w \<noteq> []" by simp_all
    have "list_all ?P w" unfolding w by (rule takeWhile_all)
    with hw ne show ?thesis by simp
  next
    assume "w \<in> set (splitWords (dropWhile ?P (c # cs)))"
    then show ?thesis by (rule "2.IH")
  qed
qed

lemma clickable_word_has_no_space:
  assumes "w \<in> set (splitWords s)" and "list_ex (\<lambda>c. \<not> isWhiteSpace c) w"
  shows "list_all (\<lambda>c. \<not> isWhiteSpace c) w"
proof -
  from splitWords_uniform [OF assms(1)]
  have ne: "w \<noteq> []" and u: "list_all (\<lambda>x. isWhiteSpace x = isWhiteSpace (hd w)) w" by simp_all
  from assms(2) obtain x where "x \<in> set w" "\<not> isWhiteSpace x" by (auto simp: list_ex_iff)
  with u have "\<not> isWhiteSpace (hd w)" by (auto simp: list_all_iff)
  with u show ?thesis by (auto simp: list_all_iff)
qed

text \<open>
  Claim C7, as stated, fails.  It says that a click strips the punctuation around a word.
  The code removes the ten characters of its class wherever they stand and no other
  punctuation mark: the apostrophe inside \<open>don't,\<close> goes with the comma, the brackets of
  \<open>[word]\<close> stay, and a concept button passes its term with its full stop.
\<close>

theorem word_click_is_not_surrounding_strip:
  "clickTarget (''don'' @ [CHR 0x27] @ ''t,'') = Some ''dont''
   \<and> surroundingPunctuationStripped (''don'' @ [CHR 0x27] @ ''t,'') = ''don'' @ [CHR 0x27] @ ''t''
   \<and> currentTopic (handleWordClick ''dont'' initialApp) = ''dont''
   \<and> clickTarget ''[word]'' = Some ''[word]''
   \<and> surroundingPunctuationStripped ''[word]'' = ''word''
   \<and> currentTopic (handleWordClick ''[word]'' initialApp) = ''[word]''
   \<and> conceptClickTarget (JObject [(''term'', JString ''Ubuntu.''), (''culture'', JString ''Zulu'')])
       = Some ''Ubuntu.''
   \<and> currentTopic (handleWordClick ''Ubuntu.'' initialApp) = ''Ubuntu.''"
  by code_simp

text \<open>
  Claim C7, amended.  A word of the definition text that is rendered as a button passes on
  the word without every occurrence, at any position, of the ten characters
  \<open>. , ! ? ; : ( ) " '\<close>, and nothing else is removed; the result is not empty.  A concept
  button passes on its term unchanged.  In both cases \<open>handleWordClick\<close> trims the text
  it is handed (a cleaned word is its own trim) and leaves the state as it is when the
  trimmed text is empty or equals the current topic up to letter case; otherwise the
  trimmed text becomes the topic and the mode becomes wiki.
\<close>

theorem word_click_navigates:
  assumes "word \<in> set (splitWords shown)" and "clickTarget word = Some target"
  shows "target = filter (\<lambda>c. c \<notin> set (''.,!?;:()'' @ [dq, CHR 0x27])) word
       \<and> target \<noteq> []
       \<and> trim target = target
       \<and> (toLowerCase target = toLowerCase (currentTopic a) \<longrightarrow> handleWordClick target a = a)
       \<and> (toLowerCase target \<noteq> toLowerCase (currentTopic a) \<longrightarrow>
            handleWordClick target a = a\<lparr>currentTopic := target, mode := Wiki\<rparr>)
       \<and> (getProp concept ''term'' = Some (JString term) \<longrightarrow> conceptClickTarget concept = Some term)
       \<and> (trim term = [] \<or> toLowerCase (trim term) = toLowerCase (currentTopic a) \<longrightarrow>
            handleWordClick term a = a)
       \<and> (trim term \<noteq> [] \<and> toLowerCase (trim term) \<noteq> toLowerCase (currentTopic a) \<longrightarrow>
            handleWordClick term a = a\<lparr>currentTopic := trim term, mode := Wiki\<rparr>)"
proof -
  from assms(2) have t: "target = cleanWord word" and ne: "target \<noteq> []"
    and ex: "list_ex (\<lambda>c. \<not> isWhiteSpace c) word"
    by (auto simp: clickTarget_def split: if_splits)
  have cls: "(\<lambda>c. \<not> isPunctuation c) = (\<lambda>c. c \<notin> set (''.,!?;:()'' @ [dq, CHR 0x27]))"
    by (rule ext) (auto simp: isPunctuation_def dq_def)
  have flt: "target = filter (\<lambda>c. c \<notin> set (''.,!?;:()'' @ [dq, CHR 0x27])) word"
    unfolding t cleanWord_def cls ..
  have "list_all (\<lambda>c. \<not> isWhiteSpace c) word"
    using assms(1) ex by (rule clickable_word_has_no_space)
  then have "list_all (\<lambda>c. \<not> isWhiteSpace c) target"
    by (simp add: t cleanWord_def list_all_iff)
  then have tr: "trim target = target" by (rule trim_without_space)
  have same: "toLowerCase target = toLowerCase (currentTopic a) \<longrightarrow> handleWordClick target a = a"
    by (simp add: handleWordClick_def tr)
  have other: "toLowerCase target \<noteq> toLowerCase (currentTopic a) \<longrightarrow>
            handleWordClick target a = a\<lparr>currentTopic := target, mode := Wiki\<rparr>"
    using ne by (simp add: handleWordClick_def tr)
  have con: "getProp concept ''term'' = Some (JString term) \<longrightarrow> conceptClickTarget concept = Some term"
    by (simp add: conceptClickTarget_def)
  have csame: "trim term = [] \<or> toLowerCase (trim term) = toLowerCase (currentTopic a) \<longrightarrow>
            handleWordClick term a = a"
    by (auto simp: handleWordClick_def Let_def)
  have cother: "trim term \<noteq> [] \<and> toLowerCase (trim term) \<noteq> toLowerCase (currentTopic a) \<longrightarrow>
            handleWordClick term a = a\<lparr>currentTopic := trim term, mode := Wiki\<rparr>"
    by (simp add: handleWordClick_def Let_def)
  show ?thesis
    by (intro conjI flt ne tr same other con csame cother)
qed

theorem word_click_navigates_witness:
  "''word,'' \<in> set (splitWords ''A word, again.'')
   \<and> clickTarget ''word,'' = Some ''word''
   \<and> handleWordClick ''word'' initialApp = initialApp\<lparr>currentTopic := ''word'', mode := Wiki\<rparr>
   \<and> ''(HYPERTEXT)'' \<in> set (splitWords ''see (HYPERTEXT) here'')
   \<and> clickTarget ''(HYPERTEXT)'' = Some ''HYPERTEXT''
   \<and> handleWordClick ''HYPERTEXT'' initialApp = initialApp
   \<and> conceptClickTarget (JObject [(''term'', JString ''Ubuntu. ''), (''culture'', JString ''Zulu'')])
       = Some ''Ubuntu. ''
   \<and> handleWordClick ''Ubuntu. '' initialApp = initialApp\<lparr>currentTopic := ''Ubuntu.'', mode := Wiki\<rparr>"
proof -
  have m1: "''word,'' \<in> set (splitWords ''A word, again.'')" by code_simp
  have c1: "clickTarget ''word,'' = Some ''word''" by code_simp
  have l1: "toLowerCase ''word'' \<noteq> toLowerCase (currentTopic initialApp)" by code_simp
  have m2: "''(HYPERTEXT)'' \<in> set (splitWords ''see (HYPERTEXT) here'')" by code_simp
  have c2: "clickTarget ''(HYPERTEXT)'' = Some ''HYPERTEXT''" by code_simp
  have l2: "toLowerCase ''HYPERTEXT'' = toLowerCase (currentTopic initialApp)" by code_simp
  have g: "getProp (JObject [(''term'', JString ''Ubuntu. ''), (''culture'', JString ''Zulu'')]) ''term''
      = Some (JString ''Ubuntu. '')" by code_simp
  have tt: "trim ''Ubuntu. '' = ''Ubuntu.''" by code_simp
  have l3: "trim ''Ubuntu. '' \<noteq> [] \<and> toLowerCase (trim ''Ubuntu. '') \<noteq> toLowerCase (currentTopic initialApp)"
    by code_simp
  note w1 = word_click_navigates [OF m1 c1, of initialApp
      "JObject [(''term'', JString ''Ubuntu. ''), (''culture'', JString ''Zulu'')]" "''Ubuntu. ''"]
  note w2 = word_click_navigates [OF m2 c2, of initialApp
      "JObject [(''term'', JString ''Ubuntu. ''), (''culture'', JString ''Zulu'')]" "''Ubuntu. ''"]
  have r1: "handleWordClick ''word'' initialApp = initialApp\<lparr>currentTopic := ''word'', mode := Wiki\<rparr>"
    using w1 [THEN conjunct2, THEN conjunct2, THEN conjunct2, THEN conjunct2, THEN conjunct1] l1
    by (simp only: simp_thms)
  have r2: "handleWordClick ''HYPERTEXT'' initialApp = initialApp"
    using w2 [THEN conjunct2, THEN conjunct2, THEN conjunct2, THEN conjunct1] l2
    by (simp only: simp_thms)
  have r3: "conceptClickTarget (JObject [(''term'', JString ''Ubuntu. ''), (''culture'', JString ''Zulu'')])
       = Some ''Ubuntu. ''"
    using w1 [THEN conjunct2, THEN conjunct2, THEN conjunct2, THEN conjunct2, THEN conjunct2, THEN conjunct1] g
    by (simp only: simp_thms)
  have r4: "handleWordClick ''Ubuntu. '' initialApp = initialApp\<lparr>currentTopic := ''Ubuntu.'', mode := Wiki\<rparr>"
    using w1 [THEN conjunct2, THEN conjunct2, THEN conjunct2, THEN conjunct2, THEN conjunct2,
              THEN conjunct2, THEN conjunct2] l3 tt
    by (simp only: simp_thms)
  show ?thesis
    by (intro conjI m1 c1 r1 m2 c2 r2 r3 r4)
qed

section \<open>Properties of the fetch effect\<close>

subsection \<open>What a result can touch\<close>

lemma updateFetch_fields [simp]:
  "app (updateFetch i f s) = app s"
  "cleanup (updateFetch i f s) = cleanup s"
  "sent (updateFetch i f s) = sent s"
  "fetches (updateFetch i f s) = (fetches s)[i := f (fetches s ! i)]"
  by (simp_all add: updateFetch_def)

lemma updateApp_fields [simp]:
  "app (updateApp f s) = f (app s)"
  "cleanup (updateApp f s) = cleanup s"
  "sent (updateApp f s) = sent s"
  "fetches (updateApp f s) = fetches s"
  by (simp_all add: updateApp_def)

text \<open>
  A result for run \<open>i\<close> leaves the cleanup, the requests, the number of runs, every other
  run, all cancellation flags, the topic and the mode as they are.
\<close>

lemma async_frame:
  assumes "eventRun e = Some i"
  shows "cleanup (step key s e) = cleanup s"
    and "sent (step key s e) = sent s"
    and "length (fetches (step key s e)) = length (fetches s)"
    and "j \<noteq> i \<Longrightarrow> fetches (step key s e) ! j = fetches s ! j"
    and "j < length (fetches s) \<Longrightarrow>
           isCancelled (fetches (step key s e) ! j) = isCancelled (fetches s ! j)"
    and "currentTopic (app (step key s e)) = currentTopic (app s)"
    and "mode (app (step key s e)) = mode (app s)"
  using assms
  by (cases e; simp add: eventRun_def step_def artSettled_def conceptsSettled_def streamChunk_def
        streamEnd_def leaveLoop_def Let_def nth_list_update split: option.splits)+

text \<open>A result for a cancelled run, or for a run that does not exist, changes no state slot.\<close>

lemma async_stale:
  assumes "eventRun e = Some i" and "i < length (fetches s) \<Longrightarrow> isCancelled (fetches s ! i)"
  shows "app (step key s e) = app s"
  using assms
  by (cases e; simp add: eventRun_def step_def artSettled_def conceptsSettled_def streamChunk_def
        streamEnd_def leaveLoop_def Let_def split: option.splits)


subsection \<open>The invariant holds in every reachable state\<close>

lemma run_Nil [simp]: "run key s [] = s"
  by (simp add: run_def)

lemma run_Cons [simp]: "run key s (e # es) = run key (step key s e) es"
  by (simp add: run_def)

lemma othersCancelled_startFetch:
  assumes "\<forall>j < length (fetches s). isCancelled (fetches s ! j)"
  shows "othersCancelled (startFetch key s)"
  using assms by (simp add: othersCancelled_def startFetch_def Let_def nth_append)

lemma runCleanup_all_cancelled:
  assumes "othersCancelled s"
  shows "\<forall>j < length (fetches (runCleanup s)). isCancelled (fetches (runCleanup s) ! j)"
    and "cleanup (runCleanup s) = None"
    and "length (fetches (runCleanup s)) = length (fetches s)"
    and "app (runCleanup s) = app s"
  using assms
  by (auto simp: othersCancelled_def runCleanup_def nth_list_update split: option.splits)

lemma othersCancelled_updateApp:
  "othersCancelled (updateApp f s) = othersCancelled s"
  by (simp add: othersCancelled_def)

lemma othersCancelled_rerender:
  assumes "othersCancelled s"
  shows "othersCancelled (rerender key before s)"
proof -
  have "othersCancelled (runCleanup s)"
    using runCleanup_all_cancelled [OF assms] by (simp add: othersCancelled_def)
  moreover have "othersCancelled (startFetch key (runCleanup s))"
    using runCleanup_all_cancelled(1) [OF assms] by (rule othersCancelled_startFetch)
  ultimately show ?thesis using assms by (simp add: rerender_def Let_def)
qed

lemma othersCancelled_async:
  assumes "othersCancelled s" and "eventRun e = Some i"
  shows "othersCancelled (step key s e)"
  using assms(1) async_frame(1,3,5) [OF assms(2), where key=key and s=s]
  by (simp add: othersCancelled_def)

lemma ui_step:
  assumes "eventRun e = None"
  shows "step key s e = s \<or> (\<exists>f. step key s e = rerender key (app s) (updateApp f s))"
  using assms by (cases e) (auto simp: step_def eventRun_def)

lemma othersCancelled_step:
  assumes "othersCancelled s"
  shows "othersCancelled (step key s e)"
proof (cases "eventRun e")
  case None
  from ui_step [OF None, of key s] show ?thesis
    using assms othersCancelled_rerender othersCancelled_updateApp by (metis)
next
  case (Some i)
  with assms show ?thesis by (rule othersCancelled_async)
qed

lemma othersCancelled_mount: "othersCancelled (mount key)"
  by (simp add: mount_def othersCancelled_startFetch)

lemma othersCancelled_run:
  "othersCancelled s \<Longrightarrow> othersCancelled (run key s evs)"
  by (induction evs arbitrary: s) (simp_all add: othersCancelled_step)

subsection \<open>The word list and the requests of a render\<close>

text \<open>
  The predefined words are pairwise different, so the \<open>Set\<close> drops none of them.
\<close>

lemma foldl_setInsert_fresh:
  "distinct ws \<Longrightarrow> set acc \<inter> set ws = {} \<Longrightarrow> foldl setInsert acc ws = acc @ ws"
proof (induction ws arbitrary: acc)
  case Nil
  then show ?case by simp
next
  case (Cons w ws)
  from Cons.prems have "setInsert acc w = acc @ [w]"
    by (simp add: setInsert_def)
  moreover from Cons.prems have "distinct ws" and "set (acc @ [w]) \<inter> set ws = {}"
    by auto
  ultimately show ?case using Cons.IH [of "acc @ [w]"] by simp
qed

lemma PREDEFINED_WORDS_distinct: "distinct PREDEFINED_WORDS"
  unfolding PREDEFINED_WORDS_def by simp

lemma UNIQUE_WORDS_eq: "UNIQUE_WORDS = PREDEFINED_WORDS"
  using foldl_setInsert_fresh [OF PREDEFINED_WORDS_distinct, of "[]"]
  by (simp add: UNIQUE_WORDS_def)

lemma UNIQUE_WORDS_length: "length UNIQUE_WORDS = 134"
  by (simp add: UNIQUE_WORDS_eq PREDEFINED_WORDS_def)

text \<open>A render sends nothing but the three requests of a new fetch for the topic shown.\<close>

lemma rerender_sent:
  "set (sent (rerender key before s)) \<subseteq>
     set (sent s) \<union> {AsciiArtReq (currentTopic (app s)), ConceptsReq (currentTopic (app s)),
                        StreamDefinitionReq (currentTopic (app s))}"
  by (auto simp: rerender_def runCleanup_def startFetch_def updateFetch_def Let_def
           split: option.splits if_splits)

text \<open>No step of the controller sends a request of \<open>getRandomWord\<close>.\<close>

lemma no_random_request_step:
  assumes "RandomWordReq \<notin> set (sent s)"
  shows "RandomWordReq \<notin> set (sent (step key s e))"
proof (cases "eventRun e")
  case None
  have rr: "RandomWordReq \<notin> set (sent (rerender key before s'))" if "sent s' = sent s" for before s'
    using rerender_sent [of key before s'] assms that by auto
  from None show ?thesis
    using assms by (cases e) (simp_all add: step_def eventRun_def rr)
next
  case (Some i)
  then show ?thesis using assms by (simp add: async_frame(2))
qed

lemma no_random_request:
  "RandomWordReq \<notin> set (sent s) \<Longrightarrow> RandomWordReq \<notin> set (sent (run key s evs))"
  by (induction evs arbitrary: s) (simp_all add: no_random_request_step)

lemma mount_sent: "RandomWordReq \<notin> set (sent (mount key))"
  by (simp add: mount_def startFetch_def Let_def)

subsection \<open>A change of topic starts a new run\<close>

lemma PREDEFINED_WORDS_nonempty: "w \<in> set PREDEFINED_WORDS \<Longrightarrow> w \<noteq> []"
  unfolding PREDEFINED_WORDS_def by auto



lemma random_topic:
  assumes "i < length UNIQUE_WORDS"
  shows "currentTopic (handleRandom i a) \<noteq> [] \<and> mode (handleRandom i a) = Wiki"
proof -
  have "0 < length UNIQUE_WORDS" using assms by arith
  then have "(i + 1) mod length UNIQUE_WORDS < length UNIQUE_WORDS" by (rule mod_less_divisor)
  then have "currentTopic (handleRandom i a) \<in> set UNIQUE_WORDS"
    using assms by (simp add: handleRandom_def Let_def del: One_nat_def add_Suc_right)
  then have "currentTopic (handleRandom i a) \<noteq> []"
    using PREDEFINED_WORDS_nonempty by (simp add: UNIQUE_WORDS_eq)
  moreover have "mode (handleRandom i a) = Wiki"
    by (simp add: handleRandom_def Let_def)
  ultimately show ?thesis by simp
qed




subsection \<open>The random button\<close>

text \<open>No two predefined words are equal up to letter case.\<close>

lemma UNIQUE_WORDS_lower_distinct: "distinct (map toLowerCase UNIQUE_WORDS)"
  unfolding UNIQUE_WORDS_eq PREDEFINED_WORDS_def
  by (simp add: toLowerCase_def lowerChar_def)

text \<open>So the random button always changes the topic.\<close>

lemma handleRandom_changes_topic:
  assumes "i < length UNIQUE_WORDS"
  shows "currentTopic (handleRandom i a) \<noteq> currentTopic a"
proof (cases "toLowerCase (UNIQUE_WORDS ! i) = toLowerCase (currentTopic a)")
  case False
  then have "currentTopic (handleRandom i a) = UNIQUE_WORDS ! i"
    by (simp add: handleRandom_def Let_def)
  with False show ?thesis by auto
next
  case True
  let ?j = "(i + 1) mod length UNIQUE_WORDS"
  have j: "?j < length UNIQUE_WORDS" "?j \<noteq> i"
    using assms by (simp_all add: UNIQUE_WORDS_length mod_Suc)
  from True have new: "currentTopic (handleRandom i a) = UNIQUE_WORDS ! ?j"
    by (simp add: handleRandom_def Let_def)
  show ?thesis
  proof
    assume "currentTopic (handleRandom i a) = currentTopic a"
    with new True have eq: "toLowerCase (UNIQUE_WORDS ! ?j) = toLowerCase (UNIQUE_WORDS ! i)"
      by simp
    have iff: "(map toLowerCase UNIQUE_WORDS ! ?j = map toLowerCase UNIQUE_WORDS ! i) = (?j = i)"
      using j(1) assms by (intro nth_eq_iff_index_eq UNIQUE_WORDS_lower_distinct) simp_all
    have "map toLowerCase UNIQUE_WORDS ! ?j = map toLowerCase UNIQUE_WORDS ! i"
      unfolding nth_map [OF j(1)] nth_map [OF assms] by (rule eq)
    then have "?j = i" by (rule iff [THEN iffD1])
    with j(2) show False by contradiction
  qed
qed

text \<open>The step of the enabled button is the start of a fetch for the chosen word.\<close>

lemma random_click_starts_fetch:
  assumes "i < length UNIQUE_WORDS" and "mode (app s) = Wiki" and "\<not> isLoading (app s)"
  shows "step key s (Random i) = startFetch key (runCleanup (updateApp (handleRandom i) s))"
proof -
  have a: "app (runCleanup s') = app s'" for s'
    by (simp add: runCleanup_def split: option.splits)
  have "currentTopic (handleRandom i (app s)) \<noteq> currentTopic (app s)"
    using assms(1) by (rule handleRandom_changes_topic)
  then have "rerender key (app s) (updateApp (handleRandom i) s)
      = startFetch key (runCleanup (updateApp (handleRandom i) s))"
    using random_topic [OF assms(1), of "app s"] by (simp add: rerender_def Let_def a)
  with assms show ?thesis by (simp add: step_def)
qed

lemma startFetch_sent:
  "sent (startFetch key (runCleanup s)) =
     sent s @ (if noKey key then []
               else [AsciiArtReq (currentTopic (app s)), ConceptsReq (currentTopic (app s)),
                     StreamDefinitionReq (currentTopic (app s))])"
  "currentTopic (app (startFetch key (runCleanup s))) = currentTopic (app s)"
  by (simp_all add: startFetch_def runCleanup_def Let_def split: option.splits)

text \<open>
  Claim C9, as stated, fails: it says that the Random button never performs network I/O.
  Pressed when the first definition is complete, with a credential, the button sends the
  three requests of the fetch for the word it picked.
\<close>

theorem random_click_sends_requests:
  "sent (run (Some ''k'') (mount (Some ''k'')) [StreamDone 0])
     = [AsciiArtReq ''Hypertext'', ConceptsReq ''Hypertext'', StreamDefinitionReq ''Hypertext'']
   \<and> sent (run (Some ''k'') (mount (Some ''k'')) [StreamDone 0, Random 0])
     = [AsciiArtReq ''Hypertext'', ConceptsReq ''Hypertext'', StreamDefinitionReq ''Hypertext'',
        AsciiArtReq ''Balance'', ConceptsReq ''Balance'', StreamDefinitionReq ''Balance'']"
proof -
  let ?k = "Some ''k''"
  let ?s = "step ?k (mount ?k) (StreamDone 0)"
  have m: "mode (app ?s) = Wiki" and l: "\<not> isLoading (app ?s)"
    and t: "currentTopic (app ?s) = ''Hypertext''"
    and k: "\<not> noKey ?k"
    and before: "sent ?s = [AsciiArtReq ''Hypertext'', ConceptsReq ''Hypertext'', StreamDefinitionReq ''Hypertext'']"
    by code_simp+
  have i: "(0::nat) < length UNIQUE_WORDS" by (simp add: UNIQUE_WORDS_length)
  have w: "UNIQUE_WORDS ! 0 = ''Balance''" by (simp add: UNIQUE_WORDS_eq PREDEFINED_WORDS_def)
  have lo: "toLowerCase ''Balance'' \<noteq> toLowerCase ''Hypertext''" by code_simp
  have pick: "currentTopic (handleRandom 0 (app ?s)) = ''Balance''"
    using lo by (simp add: handleRandom_def Let_def w t)
  have "sent (step ?k ?s (Random 0))
      = sent ?s @ [AsciiArtReq ''Balance'', ConceptsReq ''Balance'', StreamDefinitionReq ''Balance'']"
    using k by (simp only: random_click_starts_fetch [OF i m l] startFetch_sent updateApp_fields pick if_False)
  then show ?thesis
    by (simp only: run_Cons run_Nil before append.simps simp_thms)
qed

text \<open>
  Claim C9, amended.  For every index that \<open>Math.floor(Math.random() * UNIQUE_WORDS.length)\<close>
  can give, \<open>handleRandom\<close> takes the new topic from the fixed local list of pairwise
  different predefined words: the word at the index, or, when that word equals the current
  topic up to letter case, the word at the next index, wrapping at the end; so the topic
  always comes from the list.  How likely each index is depends on \<open>Math.random\<close> alone.
  Choosing the word sends nothing, and in no reachable state has a request of
  \<open>getRandomWord\<close> been sent.  Pressing the button, which is enabled in wiki mode when
  nothing is loading, makes the chosen word the topic and sends exactly the requests of
  its fetch: art, concepts and definition stream with a credential, none without.
\<close>

theorem random_button_uses_local_list:
  assumes "randomIndex < length UNIQUE_WORDS"
    and "mode (app s) = Wiki" and "\<not> isLoading (app s)"
  shows "currentTopic (handleRandom randomIndex a) \<in> set UNIQUE_WORDS
       \<and> (toLowerCase (UNIQUE_WORDS ! randomIndex) \<noteq> toLowerCase (currentTopic a) \<longrightarrow>
            currentTopic (handleRandom randomIndex a) = UNIQUE_WORDS ! randomIndex)
       \<and> (toLowerCase (UNIQUE_WORDS ! randomIndex) = toLowerCase (currentTopic a) \<longrightarrow>
            currentTopic (handleRandom randomIndex a)
              = UNIQUE_WORDS ! ((randomIndex + 1) mod length UNIQUE_WORDS))
       \<and> distinct UNIQUE_WORDS \<and> set UNIQUE_WORDS = set PREDEFINED_WORDS
       \<and> currentTopic (app (step key s (Random randomIndex)))
            = currentTopic (handleRandom randomIndex (app s))
       \<and> sent (step key s (Random randomIndex)) =
            sent s @
              (if noKey key then []
               else [AsciiArtReq (currentTopic (handleRandom randomIndex (app s))),
                     ConceptsReq (currentTopic (handleRandom randomIndex (app s))),
                     StreamDefinitionReq (currentTopic (handleRandom randomIndex (app s)))])
       \<and> RandomWordReq \<notin> set (sent (step key (run key (mount key) history) (Random randomIndex)))"
proof -
  have "0 < length UNIQUE_WORDS" using assms(1) by arith
  then have n: "(randomIndex + 1) mod length UNIQUE_WORDS < length UNIQUE_WORDS"
    by (rule mod_less_divisor)
  have pick: "currentTopic (handleRandom randomIndex a) \<in> set UNIQUE_WORDS"
    using assms(1) n by (simp add: handleRandom_def Let_def del: One_nat_def add_Suc_right)
  have sel1: "toLowerCase (UNIQUE_WORDS ! randomIndex) \<noteq> toLowerCase (currentTopic a) \<longrightarrow>
            currentTopic (handleRandom randomIndex a) = UNIQUE_WORDS ! randomIndex"
    by (simp add: handleRandom_def Let_def)
  have sel2: "toLowerCase (UNIQUE_WORDS ! randomIndex) = toLowerCase (currentTopic a) \<longrightarrow>
            currentTopic (handleRandom randomIndex a)
              = UNIQUE_WORDS ! ((randomIndex + 1) mod length UNIQUE_WORDS)"
    by (simp add: handleRandom_def Let_def)
  have u1: "distinct UNIQUE_WORDS"
    by (simp add: UNIQUE_WORDS_eq PREDEFINED_WORDS_distinct)
  have u2: "set UNIQUE_WORDS = set PREDEFINED_WORDS"
    by (simp add: UNIQUE_WORDS_eq)
  note st = random_click_starts_fetch [OF assms, of key]
  have topic: "currentTopic (app (step key s (Random randomIndex)))
            = currentTopic (handleRandom randomIndex (app s))"
    by (simp only: st startFetch_sent updateApp_fields)
  have net: "sent (step key s (Random randomIndex)) =
            sent s @
              (if noKey key then []
               else [AsciiArtReq (currentTopic (handleRandom randomIndex (app s))),
                     ConceptsReq (currentTopic (handleRandom randomIndex (app s))),
                     StreamDefinitionReq (currentTopic (handleRandom randomIndex (app s)))])"
    by (simp only: st startFetch_sent updateApp_fields)
  have never: "RandomWordReq \<notin> set (sent (step key (run key (mount key) history) (Random randomIndex)))"
    by (intro no_random_request_step no_random_request mount_sent)
  show ?thesis
    by (intro conjI pick sel1 sel2 u1 u2 topic net never)
qed

theorem random_button_uses_local_list_witness:
  "(0::nat) < length UNIQUE_WORDS
   \<and> mode (app (run (Some ''k'') (mount (Some ''k'')) [StreamDone 0])) = Wiki
   \<and> \<not> isLoading (app (run (Some ''k'') (mount (Some ''k'')) [StreamDone 0]))
   \<and> currentTopic (handleRandom 0 initialApp) = ''Balance''
   \<and> currentTopic (handleRandom 0 (initialApp\<lparr>currentTopic := ''balance''\<rparr>)) = ''Harmony''
   \<and> currentTopic (handleRandom 133 (initialApp\<lparr>currentTopic := ''ENJAMBMENT''\<rparr>)) = ''Balance''
   \<and> currentTopic (app (step (Some ''k'') (run (Some ''k'') (mount (Some ''k'')) [StreamDone 0]) (Random 0)))
       = ''Balance''"
proof -
  let ?k = "Some ''k''"
  let ?s = "run ?k (mount ?k) [StreamDone 0]"
  have h0: "(0::nat) < length UNIQUE_WORDS" and h133: "(133::nat) < length UNIQUE_WORDS"
    by (simp_all add: UNIQUE_WORDS_length)
  have m: "mode (app ?s) = Wiki" and l: "\<not> isLoading (app ?s)"
    by code_simp+
  have w0: "UNIQUE_WORDS ! 0 = ''Balance''" and w1: "UNIQUE_WORDS ! 1 = ''Harmony''"
    and w133: "UNIQUE_WORDS ! 133 = ''Enjambment''"
    by (simp_all add: UNIQUE_WORDS_eq PREDEFINED_WORDS_def)
  have n0: "(0 + 1) mod length UNIQUE_WORDS = 1" and n133: "(133 + 1) mod length UNIQUE_WORDS = 0"
    by (simp_all add: UNIQUE_WORDS_length)
  have l0: "toLowerCase (UNIQUE_WORDS ! 0) \<noteq> toLowerCase (currentTopic initialApp)"
    unfolding w0 by code_simp
  have l1: "toLowerCase (UNIQUE_WORDS ! 0) = toLowerCase (currentTopic (initialApp\<lparr>currentTopic := ''balance''\<rparr>))"
    unfolding w0 by code_simp
  have l2: "toLowerCase (UNIQUE_WORDS ! 133) = toLowerCase (currentTopic (initialApp\<lparr>currentTopic := ''ENJAMBMENT''\<rparr>))"
    unfolding w133 by code_simp
  have l3: "toLowerCase (UNIQUE_WORDS ! 0) \<noteq> toLowerCase (currentTopic (app ?s))"
    unfolding w0 by code_simp
  note t0 = random_button_uses_local_list [OF h0 m l, of initialApp]
  note t1 = random_button_uses_local_list [OF h0 m l, of "initialApp\<lparr>currentTopic := ''balance''\<rparr>"]
  note t2 = random_button_uses_local_list [OF h133 m l, of "initialApp\<lparr>currentTopic := ''ENJAMBMENT''\<rparr>"]
  note t3 = random_button_uses_local_list [OF h0 m l, of "app ?s" ?k]
  have r0: "currentTopic (handleRandom 0 initialApp) = ''Balance''"
    using t0 [THEN conjunct2, THEN conjunct1] l0 w0 by (simp only: simp_thms)
  have r1: "currentTopic (handleRandom 0 (initialApp\<lparr>currentTopic := ''balance''\<rparr>)) = ''Harmony''"
    using t1 [THEN conjunct2, THEN conjunct2, THEN conjunct1] l1 w1 n0 by (simp only: simp_thms)
  have r2: "currentTopic (handleRandom 133 (initialApp\<lparr>currentTopic := ''ENJAMBMENT''\<rparr>)) = ''Balance''"
    using t2 [THEN conjunct2, THEN conjunct2, THEN conjunct1] l2 w0 n133 by (simp only: simp_thms)
  have r3a: "currentTopic (handleRandom 0 (app ?s)) = ''Balance''"
    using t3 [THEN conjunct2, THEN conjunct1] l3 w0 by (simp only: simp_thms)
  have r3: "currentTopic (app (step ?k ?s (Random 0))) = ''Balance''"
    using t3 [THEN conjunct2, THEN conjunct2, THEN conjunct2, THEN conjunct2, THEN conjunct2, THEN conjunct1] r3a
    by (simp only:)
  show ?thesis
    by (intro conjI h0 m l r0 r1 r2 r3)
qed

subsection \<open>Superseded runs\<close>




subsection \<open>Chunks that start with the error prefix\<close>

lemma closed_stream_keeps_failure:
  assumes "eventRun e = Some i" and "\<not> streamOpen (fetches s ! i)"
  shows "content (app (step key s e)) = content (app s)"
    and "error (app (step key s e)) = error (app s)"
    and "\<not> streamOpen (fetches (step key s e) ! i)"
  using assms
  by (cases e; simp add: eventRun_def step_def artSettled_def conceptsSettled_def streamChunk_def
        streamEnd_def leaveLoop_def Let_def split: option.splits)+

lemma failure_persists:
  assumes "list_all (\<lambda>e. eventRun e \<noteq> None) later"
    and "othersCancelled s" and "cleanup s = Some i" and "\<not> streamOpen (fetches s ! i)"
  shows "content (app (run key s later)) = content (app s)
       \<and> error (app (run key s later)) = error (app s)"
  using assms
proof (induction later arbitrary: s)
  case Nil
  then show ?case by simp
next
  case (Cons e later)
  from Cons.prems(1) obtain j where j: "eventRun e = Some j" and rest: "list_all (\<lambda>e. eventRun e \<noteq> None) later"
    by auto
  note fr = async_frame [OF j, where key=key and s=s]
  have inv': "othersCancelled (step key s e)"
    using Cons.prems(2) by (rule othersCancelled_step)
  have cl': "cleanup (step key s e) = Some i"
    using Cons.prems(3) by (simp add: fr(1))
  have keep: "content (app (step key s e)) = content (app s)
      \<and> error (app (step key s e)) = error (app s)
      \<and> \<not> streamOpen (fetches (step key s e) ! i)"
  proof (cases "j = i")
    case True
    with j Cons.prems(4) closed_stream_keeps_failure [of e i s key] show ?thesis by simp
  next
    case False
    have "j < length (fetches s) \<Longrightarrow> isCancelled (fetches s ! j)"
      using Cons.prems(2,3) False by (simp add: othersCancelled_def)
    with j have "app (step key s e) = app s" by (rule async_stale)
    moreover have "fetches (step key s e) ! i = fetches s ! i"
      using False fr(4) [of i] by simp
    ultimately show ?thesis using Cons.prems(4) by simp
  qed
  with Cons.IH [OF rest inv' cl'] show ?case by simp
qed

text \<open>
  Claim C10.  In any reachable state, a chunk that starts with \<open>Error:\<close>, delivered to the
  live run while its loop is open, clears the content and becomes the error shown.
  Whatever results arrive afterwards, the content stays empty and the error stays, so the
  page never displays the chunk, or anything after it, as the definition.
\<close>

theorem error_prefixed_chunk_is_failure:
  assumes "s = run key (mount key) history"
    and "cleanup s = Some i" and "streamOpen (fetches s ! i)"
    and "startsWith chunk ''Error:''"
    and "list_all (\<lambda>e. eventRun e \<noteq> None) later"
  shows "content (app (step key s (StreamChunk i chunk))) = []
       \<and> error (app (step key s (StreamChunk i chunk))) = Some chunk
       \<and> content (app (run key (step key s (StreamChunk i chunk)) later)) = []
       \<and> error (app (run key (step key s (StreamChunk i chunk)) later)) = Some chunk
       \<and> displayedContent (app (run key (step key s (StreamChunk i chunk)) later)) = None"
proof -
  let ?s' = "step key s (StreamChunk i chunk)"
  have inv: "othersCancelled s"
    unfolding assms(1) by (intro othersCancelled_run othersCancelled_mount)
  with assms(2) have live: "i < length (fetches s)" "\<not> isCancelled (fetches s ! i)"
    by (simp_all add: othersCancelled_def)
  have now: "content (app ?s') = []" "error (app ?s') = Some chunk" "\<not> streamOpen (fetches ?s' ! i)"
    using live assms(3,4) by (simp_all add: step_def streamChunk_def leaveLoop_def Let_def)
  have inv': "othersCancelled ?s'" using inv by (rule othersCancelled_step)
  have cl': "cleanup ?s' = Some i"
    using assms(2) by (simp add: async_frame(1) [of _ i] eventRun_def)
  from failure_persists [OF assms(5) inv' cl' now(3), of key] now
  show ?thesis by (simp add: displayedContent_def)
qed

theorem error_prefixed_chunk_is_failure_witness:
  "cleanup (run (Some ''k'') (mount (Some ''k'')) []) = Some 0
   \<and> streamOpen (fetches (run (Some ''k'') (mount (Some ''k'')) []) ! 0)
   \<and> startsWith ''Error: a mistake in printing'' ''Error:''
   \<and> list_all (\<lambda>e. eventRun e \<noteq> None) [StreamChunk 0 '' is an erratum.'', StreamDone 0]
   \<and> error (app (run (Some ''k'')
        (step (Some ''k'') (run (Some ''k'') (mount (Some ''k'')) []) (StreamChunk 0 ''Error: a mistake in printing''))
        [StreamChunk 0 '' is an erratum.'', StreamDone 0])) = Some ''Error: a mistake in printing''
   \<and> displayedContent (app (run (Some ''k'')
        (step (Some ''k'') (run (Some ''k'') (mount (Some ''k'')) []) (StreamChunk 0 ''Error: a mistake in printing''))
        [StreamChunk 0 '' is an erratum.'', StreamDone 0])) = None"
proof -
  let ?k = "Some ''k''"
  let ?s = "run ?k (mount ?k) []"
  have h2: "cleanup ?s = Some 0" by code_simp
  have h3: "streamOpen (fetches ?s ! 0)" by code_simp
  have h4: "startsWith ''Error: a mistake in printing'' ''Error:''" by code_simp
  have h5: "list_all (\<lambda>e. eventRun e \<noteq> None) [StreamChunk 0 '' is an erratum.'', StreamDone 0]"
    by (simp add: eventRun_def)
  note t = error_prefixed_chunk_is_failure [OF refl h2 h3 h4 h5]
  show ?thesis
    by (intro conjI h2 h3 h4 h5 t [THEN conjunct2, THEN conjunct2, THEN conjunct2, THEN conjunct1]
          t [THEN conjunct2, THEN conjunct2, THEN conjunct2, THEN conjunct2])
qed

end
